theory Spec2Isabelle
  imports Complex_Main "HOL-Library.Sublist" "HOL-Library.Log_Nat"
begin

section \<open>Numbers\<close>

text \<open>
  The program computes with Python floats and, inside the data frame, with numpy
  \<open>float64\<close> values; both are IEEE 754 binary64 numbers. A finite binary64 value is
  modelled by the rational it denotes, and every arithmetic operation rounds its exact
  result to the nearest binary64 value, ties to even: the precision is 53 bits, the
  exponent of the quantum is at least \<open>-1074\<close> (subnormal numbers), and a result
  whose rounded magnitude reaches \<open>2 ^ 1024\<close> overflows to an infinity. A decimal
  literal of the source such as \<open>0.15\<close> denotes \<open>fl64 0.15\<close>, the binary64 value
  nearest to it. A \<open>float64\<close> division by zero does not raise, it yields an infinity
  or NaN (with a warning), and a rolling window that is not full yields NaN. The sign
  of a zero is not modelled.
\<close>

text \<open>Rounding a rational to the nearest integer, ties to even.\<close>

definition rhe :: "rat \<Rightarrow> int" where
  "rhe r =
     (let f = \<lfloor>r\<rfloor>; d = r - of_int f
      in if d < 1/2 then f else if 1/2 < d then f + 1 else if even f then f else f + 1)"

text \<open>The binary exponent of a non-zero rational: the \<open>e\<close> with
  \<open>2 ^ e \<le> \<bar>x\<bar> < 2 ^ (e + 1)\<close>, found from the bit lengths of numerator and
  denominator.\<close>

definition ilog2 :: "rat \<Rightarrow> int" where
  "ilog2 x =
     (case quotient_of \<bar>x\<bar> of
        (n, d) \<Rightarrow> let k = bitlen n - bitlen d in if power_int 2 k \<le> \<bar>x\<bar> then k else k - 1)"

text \<open>The spacing of the binary64 values around \<open>x\<close>: 52 bits below the exponent of
  \<open>x\<close>, and \<open>2 ^ -1074\<close> in the subnormal range.\<close>

definition quantum :: "rat \<Rightarrow> rat" where
  "quantum x = power_int 2 (max (- 1022) (ilog2 x) - 52)"

text \<open>The nearest binary64 value, not yet checked for overflow.\<close>

definition fl64 :: "rat \<Rightarrow> rat" where
  "fl64 x = (if x = 0 then 0 else of_int (rhe (x / quantum x)) * quantum x)"

datatype npfloat = Fin rat | PInf | NInf | NaN

text \<open>The binary64 result of an exact value: rounded, or an infinity on overflow.\<close>

definition rnd64 :: "rat \<Rightarrow> npfloat" where
  "rnd64 x =
     (let y = fl64 x
      in if 2 ^ 1024 \<le> y then PInf else if y \<le> - (2 ^ 1024) then NInf else Fin y)"

fun is_finite :: "npfloat \<Rightarrow> bool" where
  "is_finite (Fin _) = True"
| "is_finite _ = False"

fun fneg :: "npfloat \<Rightarrow> npfloat" where
  "fneg (Fin a) = Fin (- a)"
| "fneg PInf = NInf"
| "fneg NInf = PInf"
| "fneg NaN = NaN"

fun fadd :: "npfloat \<Rightarrow> npfloat \<Rightarrow> npfloat" where
  "fadd (Fin a) (Fin b) = rnd64 (a + b)"
| "fadd NaN _ = NaN"
| "fadd _ NaN = NaN"
| "fadd PInf NInf = NaN"
| "fadd NInf PInf = NaN"
| "fadd PInf _ = PInf"
| "fadd _ PInf = PInf"
| "fadd NInf _ = NInf"
| "fadd _ NInf = NInf"

definition fsub :: "npfloat \<Rightarrow> npfloat \<Rightarrow> npfloat" where
  "fsub x y = fadd x (fneg y)"

text \<open>The sign of a finite factor decides the sign of an infinite product; zero times
  an infinity is NaN.\<close>

definition inf_of_sign :: "rat \<Rightarrow> npfloat" where
  "inf_of_sign a = (if a = 0 then NaN else if 0 < a then PInf else NInf)"

fun fmul :: "npfloat \<Rightarrow> npfloat \<Rightarrow> npfloat" where
  "fmul (Fin a) (Fin b) = rnd64 (a * b)"
| "fmul NaN _ = NaN"
| "fmul _ NaN = NaN"
| "fmul PInf (Fin b) = inf_of_sign b"
| "fmul (Fin a) PInf = inf_of_sign a"
| "fmul NInf (Fin b) = inf_of_sign (- b)"
| "fmul (Fin a) NInf = inf_of_sign (- a)"
| "fmul PInf PInf = PInf"
| "fmul NInf NInf = PInf"
| "fmul PInf NInf = NInf"
| "fmul NInf PInf = NInf"

text \<open>Division of \<open>float64\<close> values: a zero divisor gives an infinity with the sign of
  the dividend, and NaN for \<open>0 / 0\<close>; no exception is raised.\<close>

fun fdiv :: "npfloat \<Rightarrow> npfloat \<Rightarrow> npfloat" where
  "fdiv (Fin a) (Fin b) = (if b = 0 then inf_of_sign a else rnd64 (a / b))"
| "fdiv NaN _ = NaN"
| "fdiv _ NaN = NaN"
| "fdiv (Fin a) PInf = Fin 0"
| "fdiv (Fin a) NInf = Fin 0"
| "fdiv PInf (Fin b) = (if 0 \<le> b then PInf else NInf)"
| "fdiv NInf (Fin b) = (if 0 \<le> b then NInf else PInf)"
| "fdiv PInf _ = NaN"
| "fdiv NInf _ = NaN"

fun fabs :: "npfloat \<Rightarrow> npfloat" where
  "fabs (Fin a) = Fin \<bar>a\<bar>"
| "fabs PInf = PInf"
| "fabs NInf = PInf"
| "fabs NaN = NaN"



text \<open>Sums and products of finite Python floats where nothing can overflow: the
  fusion halves the confidence and adds it to a score of at most 0.5, which stays
  below \<open>2 ^ 1024\<close> for every finite binary64 confidence.\<close>

definition fadd64 :: "rat \<Rightarrow> rat \<Rightarrow> rat" where
  "fadd64 x y = fl64 (x + y)"

definition fmul64 :: "rat \<Rightarrow> rat \<Rightarrow> rat" where
  "fmul64 x y = fl64 (x * y)"

section \<open>Errors\<close>

datatype py_error = IndexError

section \<open>The data frame and the target calculator\<close>

text \<open>
  \<open>TechnicalAnalysis\<close> holds a data frame \<open>self.df\<close> of OHLCV bars, oldest first.
  \<open>calculate_trade_targets\<close> reads the columns \<open>high\<close>, \<open>low\<close> and \<open>close\<close>
  only; the frame is the list of its rows, a column is \<open>map\<close> of a field over it.
  The columns were converted with \<open>astype(float)\<close> from an exchange's decimal
  strings, so their entries are finite binary64 values; the current price, a Python
  float, and the risk/reward ratio are finite binary64 values as well.
\<close>

record bar =
  high :: rat
  low :: rat
  close :: rat

type_synonym dataframe = "bar list"

text \<open>\<open>Series.rolling(w).max()\<close> and \<open>.min()\<close>: position \<open>i\<close> holds the extremum of
  the \<open>w\<close> entries ending at \<open>i\<close>, and NaN while fewer than \<open>w\<close> entries are there
  (\<open>min_periods\<close> defaults to the window size).\<close>

definition window :: "nat \<Rightarrow> rat list \<Rightarrow> nat \<Rightarrow> rat list" where
  "window w xs i = take w (drop (Suc i - w) xs)"

definition rolling_max :: "nat \<Rightarrow> rat list \<Rightarrow> npfloat list" where
  "rolling_max w xs =
     map (\<lambda>i. if Suc i < w then NaN else Fin (Max (set (window w xs i)))) [0..<length xs]"

definition rolling_min :: "nat \<Rightarrow> rat list \<Rightarrow> npfloat list" where
  "rolling_min w xs =
     map (\<lambda>i. if Suc i < w then NaN else Fin (Min (set (window w xs i)))) [0..<length xs]"

text \<open>\<open>series.iloc[-1]\<close> raises \<open>IndexError\<close> on an empty series.\<close>

definition iloc_last :: "'a list \<Rightarrow> py_error + 'a" where
  "iloc_last xs = (if xs = [] then Inl IndexError else Inr (last xs))"

datatype trend = Long | Short

record trade_targets =
  stop_loss :: npfloat
  take_profit :: npfloat
  risk_distance :: npfloat
  reward_distance :: npfloat

definition calculate_trade_targets ::
  "dataframe \<Rightarrow> rat \<Rightarrow> trend \<Rightarrow> rat \<Rightarrow> py_error + trade_targets" where
  "calculate_trade_targets df current_price trend risk_reward_ratio =
     (let atr = map2 fsub (rolling_max 14 (map high df)) (rolling_min 14 (map low df)) in
      case iloc_last atr of Inl e \<Rightarrow> Inl e | Inr atr_last \<Rightarrow>
     (case iloc_last (map close df) of Inl e \<Rightarrow> Inl e | Inr close_last \<Rightarrow>
     (let current_atr = fdiv atr_last (Fin close_last);
          stop_distance = fmul (fmul (Fin current_price) current_atr) (Fin 1.5);
          (sl, tp) =
            (case trend of
               Long \<Rightarrow> (fsub (Fin current_price) stop_distance,
                        fadd (Fin current_price) (fmul stop_distance (Fin risk_reward_ratio)))
             | Short \<Rightarrow> (fadd (Fin current_price) stop_distance,
                         fsub (Fin current_price) (fmul stop_distance (Fin risk_reward_ratio))))
      in Inr \<lparr> stop_loss = sl,
               take_profit = tp,
               risk_distance = fabs (fsub (Fin current_price) sl),
               reward_distance = fabs (fsub tp (Fin current_price)) \<rparr>)))"

section \<open>The sentiment text interpreter\<close>

text \<open>
  \<open>DeepSeekClient._extract_sentiment\<close>. A Python string is modelled by its bytes; the
  keywords are ASCII, so matching them in the bytes is matching them in the text.
  \<open>lower\<close> maps the ASCII capitals to small letters and leaves every other byte.
  The test \<open>word in content\<close> is \<^const>\<open>sublist\<close>: a contiguous occurrence.
\<close>

definition lower_char :: "char \<Rightarrow> char" where
  "lower_char c =
     (let n = (of_char c :: nat) in if 65 \<le> n \<and> n \<le> 90 then char_of (n + 32) else c)"

definition lower :: "string \<Rightarrow> string" where
  "lower content = map lower_char content"

definition bullish_keywords :: "string list" where
  "bullish_keywords = [''bullish'', ''upward'', ''growth'', ''increase'', ''higher'']"

definition bearish_keywords :: "string list" where
  "bearish_keywords = [''bearish'', ''downward'', ''decline'', ''decrease'', ''lower'']"

text \<open>\<open>sum(1 for word in keywords if word in content)\<close>\<close>

definition keyword_count :: "string list \<Rightarrow> string \<Rightarrow> nat" where
  "keyword_count keywords content =
     sum_list (map (\<lambda>word. 1) (filter (\<lambda>word. sublist word content) keywords))"

definition extract_sentiment :: "string \<Rightarrow> string" where
  "extract_sentiment content0 =
     (let content = lower content0;
          bullish_count = keyword_count bullish_keywords content;
          bearish_count = keyword_count bearish_keywords content
      in if bullish_count > bearish_count then ''bullish''
         else if bearish_count > bullish_count then ''bearish''
         else ''neutral'')"

section \<open>The signal generator\<close>

text \<open>
  \<open>technical_signals\<close> is the dictionary made from the last row of the signal frame;
  the generator reads it with \<open>.get(key, False)\<close>, so an absent key counts as false.
  \<open>ai_analysis\<close> is the dictionary built by the sentiment client; a field is
  \<open>None\<close> when the key is absent.
\<close>

type_synonym technical_signals = "string \<rightharpoonup> bool"

definition get_flag :: "technical_signals \<Rightarrow> string \<Rightarrow> bool" where
  "get_flag d k = (case d k of None \<Rightarrow> False | Some b \<Rightarrow> b)"

record ai_analysis =
  sentiment :: "string option"
  confidence_score :: "rat option"
  key_levels :: "rat list option"
  recommendations :: "string list option"

text \<open>The two attributes of \<open>SignalGenerator\<close> that the fusion reads, and the values
  \<open>__init__\<close> gives them.\<close>

record signal_generator =
  risk_reward_ratio :: rat
  min_confidence_threshold :: rat

definition init_signal_generator :: signal_generator where
  "init_signal_generator =
     \<lparr> risk_reward_ratio = 2.0, min_confidence_threshold = fl64 0.7 \<rparr>"

text \<open>The returned dictionary. The neutral result has the keys \<open>timestamp\<close>,
  \<open>signal\<close>, \<open>message\<close> and \<open>confidence\<close> only; a directional result has no
  \<open>message\<close> and all the others. A key that a result lacks is \<open>None\<close>.\<close>

record entry_point =
  price :: rat
  entry_type :: string
  timing :: string

record signal_targets =
  target_stop_loss :: npfloat
  target_take_profit :: npfloat

record technical_factors =
  factor_trend :: string
  rsi_condition :: string
  volume_condition :: string

record ai_summary =
  summary_sentiment :: "string option"
  summary_confidence :: "rat option"
  summary_recommendations :: "string list"

record trading_signal =
  timestamp :: string
  signal :: string
  message :: "string option"
  current_price :: "rat option"
  confidence :: rat
  entry :: "entry_point option"
  targets :: "signal_targets option"
  signal_risk_reward_ratio :: "rat option"
  signal_key_levels :: "rat list option"
  signal_technical_factors :: "technical_factors option"
  signal_ai_analysis :: "ai_summary option"

text \<open>\<open>sep.join(xs)\<close>\<close>

fun join :: "string \<Rightarrow> string list \<Rightarrow> string" where
  "join sep [] = []"
| "join sep [x] = x"
| "join sep (x # y # ys) = x @ sep @ join sep (y # ys)"

definition get_entry_timing :: "technical_signals \<Rightarrow> ai_analysis \<Rightarrow> string" where
  "get_entry_timing technical_signals ai =
     (if get_flag technical_signals ''high_volume'' \<and>
         (case confidence_score ai of None \<Rightarrow> 0 | Some c \<Rightarrow> c) > fl64 0.8
      then ''immediate''
      else
        let conditions = [];
            conditions = (if get_flag technical_signals ''rsi_oversold''
                          then conditions @ [''wait for RSI recovery''] else conditions);
            conditions = (if get_flag technical_signals ''rsi_overbought''
                          then conditions @ [''wait for RSI pullback''] else conditions);
            conditions = (if \<not> get_flag technical_signals ''high_volume''
                          then conditions @ [''wait for volume confirmation''] else conditions)
        in if conditions \<noteq> [] then ''delayed: '' @ join '', '' conditions else ''immediate'')"

text \<open>The scoring part of \<open>_generate_final_signal\<close>: the two accumulators after the
  technical and the sentiment contributions.\<close>

definition signal_scores :: "technical_signals \<Rightarrow> ai_analysis \<Rightarrow> rat \<times> rat" where
  "signal_scores technical_signals ai =
     (let bull_score = 0;
          bear_score = 0;
          bull_score = (if get_flag technical_signals ''uptrend''
                        then fadd64 bull_score (fl64 0.25) else bull_score);
          bear_score = (if get_flag technical_signals ''downtrend''
                        then fadd64 bear_score (fl64 0.25) else bear_score);
          bull_score = (if get_flag technical_signals ''golden_cross''
                        then fadd64 bull_score (fl64 0.15) else bull_score);
          bear_score = (if get_flag technical_signals ''death_cross''
                        then fadd64 bear_score (fl64 0.15) else bear_score);
          bull_score = (if get_flag technical_signals ''rsi_oversold''
                        then fadd64 bull_score (fl64 0.1) else bull_score);
          bear_score = (if get_flag technical_signals ''rsi_overbought''
                        then fadd64 bear_score (fl64 0.1) else bear_score);
          ai_confidence = (case confidence_score ai of None \<Rightarrow> fl64 0.5 | Some c \<Rightarrow> c)
      in if sentiment ai = Some ''bullish''
         then (fadd64 bull_score (fmul64 (fl64 0.5) ai_confidence), bear_score)
         else if sentiment ai = Some ''bearish''
              then (bull_score, fadd64 bear_score (fmul64 (fl64 0.5) ai_confidence))
         else (bull_score, bear_score))"

text \<open>\<open>_generate_final_signal\<close>. The reading of the clock,
  \<open>datetime.now().isoformat()\<close>, is the argument \<open>now\<close>; \<open>ta\<close> is the data frame
  of the analysis object, which the target calculator reads.\<close>

definition generate_final_signal ::
  "signal_generator \<Rightarrow> string \<Rightarrow> rat \<Rightarrow> technical_signals \<Rightarrow> ai_analysis \<Rightarrow> dataframe
     \<Rightarrow> py_error + trading_signal" where
  "generate_final_signal self now cur_price technical_signals ai ta =
     (let (bull_score, bear_score) = signal_scores technical_signals ai;
          signal_type =
            (if bull_score > bear_score \<and> bull_score > min_confidence_threshold self
             then Some ''buy''
             else if bear_score > bull_score \<and> bear_score > min_confidence_threshold self
             then Some ''sell''
             else None)
      in case signal_type of
           None \<Rightarrow>
             Inr \<lparr> timestamp = now,
                   signal = ''neutral'',
                   message = Some ''No clear trading opportunity'',
                   current_price = None,
                   confidence = max bull_score bear_score,
                   entry = None,
                   targets = None,
                   signal_risk_reward_ratio = None,
                   signal_key_levels = None,
                   signal_technical_factors = None,
                   signal_ai_analysis = None \<rparr>
         | Some st \<Rightarrow>
            (case calculate_trade_targets ta cur_price
                    (if st = ''buy'' then Long else Short) (risk_reward_ratio self) of
               Inl e \<Rightarrow> Inl e
             | Inr tgts \<Rightarrow>
                 Inr \<lparr> timestamp = now,
                       signal = st,
                       message = None,
                       current_price = Some cur_price,
                       confidence = (if st = ''buy'' then bull_score else bear_score),
                       entry = Some \<lparr> price = cur_price,
                                      entry_type = ''market'',
                                      timing = get_entry_timing technical_signals ai \<rparr>,
                       targets = Some \<lparr> target_stop_loss = stop_loss tgts,
                                        target_take_profit = take_profit tgts \<rparr>,
                       signal_risk_reward_ratio = Some (risk_reward_ratio self),
                       signal_key_levels =
                         Some (case key_levels ai of None \<Rightarrow> [] | Some ls \<Rightarrow> ls),
                       signal_technical_factors = Some
                         \<lparr> factor_trend = (if get_flag technical_signals ''uptrend''
                                            then ''bullish'' else ''bearish''),
                           rsi_condition = (if get_flag technical_signals ''rsi_oversold''
                                            then ''oversold''
                                            else if get_flag technical_signals ''rsi_overbought''
                                            then ''overbought'' else ''neutral''),
                           volume_condition = (if get_flag technical_signals ''high_volume''
                                               then ''high'' else ''normal'') \<rparr>,
                       signal_ai_analysis = Some
                         \<lparr> summary_sentiment = sentiment ai,
                           summary_confidence = confidence_score ai,
                           summary_recommendations =
                             (case recommendations ai of None \<Rightarrow> [] | Some rs \<Rightarrow> rs) \<rparr> \<rparr>))"

section \<open>Notions used in the statements\<close>

text \<open>The value of \<open>atr.iloc[-1]\<close> for a non-empty frame, and the stop distance
  computed from it.\<close>

definition atr_last :: "dataframe \<Rightarrow> npfloat" where
  "atr_last df =
     (if length df < 14 then NaN
      else fsub (Fin (Max (set (window 14 (map high df) (length df - 1)))))
                (Fin (Min (set (window 14 (map low df) (length df - 1))))))"

definition stop_distance_of :: "dataframe \<Rightarrow> rat \<Rightarrow> npfloat" where
  "stop_distance_of df cp =
     fmul (fmul (Fin cp) (fdiv (atr_last df) (Fin (close (last df))))) (Fin 1.5)"



text \<open>The contributions that fire, in the order in which the fusion adds them.\<close>

definition bull_contributions :: "technical_signals \<Rightarrow> ai_analysis \<Rightarrow> rat list" where
  "bull_contributions ts ai =
     (if get_flag ts ''uptrend'' then [fl64 0.25] else []) @
     (if get_flag ts ''golden_cross'' then [fl64 0.15] else []) @
     (if get_flag ts ''rsi_oversold'' then [fl64 0.10] else []) @
     (if sentiment ai = Some ''bullish''
      then [fmul64 (fl64 0.5) (case confidence_score ai of None \<Rightarrow> fl64 0.5 | Some c \<Rightarrow> c)]
      else [])"

definition bear_contributions :: "technical_signals \<Rightarrow> ai_analysis \<Rightarrow> rat list" where
  "bear_contributions ts ai =
     (if get_flag ts ''downtrend'' then [fl64 0.25] else []) @
     (if get_flag ts ''death_cross'' then [fl64 0.15] else []) @
     (if get_flag ts ''rsi_overbought'' then [fl64 0.10] else []) @
     (if sentiment ai = Some ''bearish''
      then [fmul64 (fl64 0.5) (case confidence_score ai of None \<Rightarrow> fl64 0.5 | Some c \<Rightarrow> c)]
      else [])"

text \<open>The confidence score of a verdict, with the default \<open>d\<close> for an absent one.\<close>

definition confidence_or :: "rat \<Rightarrow> ai_analysis \<Rightarrow> rat" where
  "confidence_or d ai = (case confidence_score ai of None \<Rightarrow> d | Some c \<Rightarrow> c)"

text \<open>The caveats of the entry timing, each stated on its own, in the fixed order
  oversold, overbought, volume.\<close>

definition triggered_caveats :: "technical_signals \<Rightarrow> string list" where
  "triggered_caveats ts =
     (if get_flag ts ''rsi_oversold'' then [''wait for RSI recovery''] else []) @
     (if get_flag ts ''rsi_overbought'' then [''wait for RSI pullback''] else []) @
     (if \<not> get_flag ts ''high_volume'' then [''wait for volume confirmation''] else [])"

text \<open>The two shapes of the returned dictionary.\<close>

definition neutral_signal :: "string \<Rightarrow> rat \<Rightarrow> trading_signal" where
  "neutral_signal now conf =
     \<lparr> timestamp = now, signal = ''neutral'',
       message = Some ''No clear trading opportunity'', current_price = None,
       confidence = conf, entry = None, targets = None,
       signal_risk_reward_ratio = None, signal_key_levels = None,
       signal_technical_factors = None, signal_ai_analysis = None \<rparr>"

definition directional_signal ::
  "signal_generator \<Rightarrow> string \<Rightarrow> rat \<Rightarrow> technical_signals \<Rightarrow> ai_analysis
     \<Rightarrow> string \<Rightarrow> rat \<Rightarrow> trade_targets \<Rightarrow> trading_signal" where
  "directional_signal self now cp ts ai st conf tgts =
     \<lparr> timestamp = now, signal = st, message = None, current_price = Some cp,
       confidence = conf,
       entry = Some \<lparr> price = cp, entry_type = ''market'',
                      timing = get_entry_timing ts ai \<rparr>,
       targets = Some \<lparr> target_stop_loss = stop_loss tgts,
                        target_take_profit = take_profit tgts \<rparr>,
       signal_risk_reward_ratio = Some (risk_reward_ratio self),
       signal_key_levels = Some (case key_levels ai of None \<Rightarrow> [] | Some ls \<Rightarrow> ls),
       signal_technical_factors = Some
         \<lparr> factor_trend = (if get_flag ts ''uptrend'' then ''bullish'' else ''bearish''),
           rsi_condition = (if get_flag ts ''rsi_oversold'' then ''oversold''
                            else if get_flag ts ''rsi_overbought''
                            then ''overbought'' else ''neutral''),
           volume_condition = (if get_flag ts ''high_volume''
                               then ''high'' else ''normal'') \<rparr>,
       signal_ai_analysis = Some
         \<lparr> summary_sentiment = sentiment ai,
           summary_confidence = confidence_score ai,
           summary_recommendations =
             (case recommendations ai of None \<Rightarrow> [] | Some rs \<Rightarrow> rs) \<rparr> \<rparr>"

text \<open>Counting occurrences, as the specification words the sentiment rule: every
  position at which a keyword starts counts, so a keyword that appears three times
  counts three times.\<close>

fun occurrences :: "string \<Rightarrow> string \<Rightarrow> nat" where
  "occurrences word [] = 0"
| "occurrences word (c # cs) = (if prefix word (c # cs) then 1 else 0) + occurrences word cs"

definition keyword_occurrences :: "string list \<Rightarrow> string \<Rightarrow> nat" where
  "keyword_occurrences keywords content =
     sum_list (map (\<lambda>word. occurrences word content) keywords)"


section \<open>Rounding\<close>

subsection \<open>Rounding to an integer\<close>


lemma rhe_of_int: "rhe (of_int n) = n"
  by (simp add: rhe_def Let_def)

lemma rhe_error: "\<bar>of_int (rhe r) - r\<bar> \<le> 1/2"
proof -
  have a: "of_int \<lfloor>r\<rfloor> \<le> r" and b: "r < of_int \<lfloor>r\<rfloor> + 1" by linarith+
  show ?thesis
    using a b by (auto simp: rhe_def Let_def abs_le_iff)
qed


lemma rhe_minus: "rhe (- r) = - rhe r"
proof (cases "r = of_int \<lfloor>r\<rfloor>")
  case True
  then obtain n where "r = of_int n" by blast
  then show ?thesis by (simp add: rhe_of_int flip: of_int_minus)
next
  case False
  have "of_int \<lfloor>r\<rfloor> \<le> r" by (rule of_int_floor_le)
  with False have a: "of_int \<lfloor>r\<rfloor> < r" by linarith
  have b: "r < of_int \<lfloor>r\<rfloor> + 1" by linarith
  have fl: "\<lfloor>- r\<rfloor> = - \<lfloor>r\<rfloor> - 1"
  proof (rule floor_unique)
    show "of_int (- \<lfloor>r\<rfloor> - 1) \<le> - r" using b by simp
    show "- r < of_int (- \<lfloor>r\<rfloor> - 1) + 1" using a by simp
  qed
  show ?thesis
    using a by (auto simp: rhe_def Let_def fl)
qed

subsection \<open>The binary exponent\<close>

lemma bitlen_powi_bounds:
  assumes "0 < n"
  shows "power_int 2 (bitlen n - 1) \<le> (of_int n :: rat)"
    and "(of_int n :: rat) < power_int 2 (bitlen n)"
proof -
  from bitlen_bounds [OF assms]
  have a: "2 ^ nat (bitlen n - 1) \<le> n" and b: "n < 2 ^ nat (bitlen n)"
    by auto
  have ge1: "1 \<le> bitlen n" using assms by (auto simp: bitlen_alt_def)
  have "(of_int (2 ^ nat (bitlen n - 1)) :: rat) \<le> of_int n"
    using a by (simp only: of_int_le_iff)
  then show "power_int 2 (bitlen n - 1) \<le> (of_int n :: rat)"
    using ge1 by (simp add: power_int_def)
  have "(of_int n :: rat) < of_int (2 ^ nat (bitlen n))"
    using b by (simp only: of_int_less_iff)
  then show "(of_int n :: rat) < power_int 2 (bitlen n)"
    using ge1 by (simp add: power_int_def)
qed

lemma ilog2_bounds:
  assumes "x \<noteq> 0"
  shows "power_int 2 (ilog2 x) \<le> \<bar>x\<bar>" and "\<bar>x\<bar> < power_int 2 (ilog2 x + 1)"
proof -
  obtain n d where q: "quotient_of \<bar>x\<bar> = (n, d)" by (cases "quotient_of \<bar>x\<bar>")
  have dpos: "0 < d" using q by (rule quotient_of_denom_pos)
  have xeq: "\<bar>x\<bar> = of_int n / of_int d" using q by (rule quotient_of_div)
  have xpos: "0 < \<bar>x\<bar>" using assms by simp
  have npos: "0 < n"
    using xpos dpos unfolding xeq by (simp add: zero_less_divide_iff)
  define k where "k = bitlen n - bitlen d"
  note bn = bitlen_powi_bounds [OF npos]
  note bd = bitlen_powi_bounds [OF dpos]
  have dq: "(0::rat) < of_int d" using dpos by simp
  have up: "\<bar>x\<bar> < power_int 2 (k + 1)"
  proof -
    have "\<bar>x\<bar> < power_int 2 (bitlen n) / of_int d"
      unfolding xeq using bn(2) dq by (simp add: divide_strict_right_mono)
    also have "\<dots> \<le> power_int 2 (bitlen n) / power_int 2 (bitlen d - 1)"
      using bd(1) dq by (intro divide_left_mono) (auto simp: zero_less_power_int)
    also have "\<dots> = power_int 2 (k + 1)"
      by (simp add: k_def power_int_diff [symmetric]) (simp add: algebra_simps)
    finally show ?thesis .
  qed
  have lo: "power_int 2 (k - 1) \<le> \<bar>x\<bar>"
  proof -
    have "power_int 2 (k - 1) = power_int 2 (bitlen n - 1) / power_int (2::rat) (bitlen d)"
      by (simp add: k_def power_int_diff [symmetric]) (simp add: algebra_simps)
    also have "\<dots> \<le> power_int 2 (bitlen n - 1) / of_int d"
      using bd(2) dq by (intro divide_left_mono) (auto simp: zero_less_power_int less_imp_le)
    also have "\<dots> \<le> \<bar>x\<bar>"
      unfolding xeq using bn(1) dq by (simp add: divide_right_mono)
    finally show ?thesis .
  qed
  have il: "ilog2 x = (if power_int 2 k \<le> \<bar>x\<bar> then k else k - 1)"
    by (simp add: ilog2_def q k_def Let_def)
  show "power_int 2 (ilog2 x) \<le> \<bar>x\<bar>" using lo by (simp add: il)
  show "\<bar>x\<bar> < power_int 2 (ilog2 x + 1)" using up by (auto simp: il not_le)
qed

lemma powi2_less_imp: "power_int (2::rat) a < power_int 2 b \<Longrightarrow> a < b"
proof (rule ccontr)
  assume l: "power_int (2::rat) a < power_int 2 b" and "\<not> a < b"
  then have "b \<le> a" by simp
  then have "power_int (2::rat) b \<le> power_int 2 a" by (rule power_int_increasing) simp
  with l show False by simp
qed

lemma ilog2_unique:
  assumes "power_int 2 e \<le> \<bar>x\<bar>" and "\<bar>x\<bar> < power_int 2 (e + 1)"
  shows "ilog2 x = e"
proof -
  have x0: "x \<noteq> 0"
  proof
    assume "x = 0"
    with assms(1) have "power_int (2::rat) e \<le> 0" by simp
    moreover have "(0::rat) < power_int 2 e" by (simp add: zero_less_power_int)
    ultimately show False by simp
  qed
  have "power_int 2 e \<le> \<bar>x\<bar>" by (rule assms(1))
  also have "\<bar>x\<bar> < power_int 2 (ilog2 x + 1)" by (rule ilog2_bounds(2) [OF x0])
  finally have a: "e < ilog2 x + 1" by (rule powi2_less_imp)
  have "power_int 2 (ilog2 x) \<le> \<bar>x\<bar>" by (rule ilog2_bounds(1) [OF x0])
  also have "\<bar>x\<bar> < power_int 2 (e + 1)" by (rule assms(2))
  finally have b: "ilog2 x < e + 1" by (rule powi2_less_imp)
  from a b show ?thesis by simp
qed

lemma ilog2_minus: "ilog2 (- x) = ilog2 x"
  by (simp add: ilog2_def)


subsection \<open>Rounding to binary64\<close>


lemma quantum_minus: "quantum (- x) = quantum x"
  by (simp add: quantum_def ilog2_minus)

lemma fl64_zero: "fl64 0 = 0"
  by (simp add: fl64_def)

lemma fl64_minus: "fl64 (- x) = - fl64 x"
  by (simp add: fl64_def quantum_minus rhe_minus)









subsection \<open>Evaluating a rounding\<close>

lemma rhe_nearest:
  assumes "\<bar>r - of_int m\<bar> < 1/2 \<or> (\<bar>r - of_int m\<bar> = 1/2 \<and> even m)"
  shows "rhe r = m"
proof -
  from assms show ?thesis
  proof
    assume l: "\<bar>r - of_int m\<bar> < 1/2"
    have "\<bar>(of_int (rhe r) :: rat) - of_int m\<bar> < 1"
      using rhe_error [of r] l by linarith
    then have "\<bar>rhe r - m\<bar> < 1" by (simp flip: of_int_diff)
    then show ?thesis by simp
  next
    assume t: "\<bar>r - of_int m\<bar> = 1/2 \<and> even m"
    then consider (up) "r = of_int m + 1/2" | (down) "r = of_int m - 1/2"
      by (auto simp: abs_if split: if_splits)
    then show ?thesis
    proof cases
      case up
      have "\<lfloor>r\<rfloor> = m" unfolding up by (rule floor_unique) simp_all
      then show ?thesis using up t by (simp add: rhe_def Let_def)
    next
      case down
      have f: "\<lfloor>r\<rfloor> = m - 1" unfolding down by (rule floor_unique) simp_all
      have "r - of_int (m - 1) = 1/2" unfolding down by simp
      then have "r - of_int \<lfloor>r\<rfloor> = 1/2" by (simp only: f)
      then show ?thesis using t f by (simp add: rhe_def Let_def)
    qed
  qed
qed

text \<open>The rounding of \<open>x\<close> from its binary exponent \<open>e\<close> and the 53-bit integer
  \<open>m\<close> nearest to \<open>x / 2 ^ (e - 52)\<close>.\<close>

lemma fl64_value:
  assumes "power_int 2 e \<le> \<bar>x\<bar>" and "\<bar>x\<bar> < power_int 2 (e + 1)" and "- 1022 \<le> e"
    and "\<bar>x / power_int 2 (e - 52) - of_int m\<bar> < 1/2
         \<or> (\<bar>x / power_int 2 (e - 52) - of_int m\<bar> = 1/2 \<and> even m)"
  shows "fl64 x = of_int m * power_int 2 (e - 52)"
proof -
  have il: "ilog2 x = e" using assms(1,2) by (rule ilog2_unique)
  have q: "quantum x = power_int 2 (e - 52)" using assms(3) by (simp add: quantum_def il)
  have x0: "x \<noteq> 0"
  proof
    assume "x = 0"
    with assms(1) have "power_int (2::rat) e \<le> 0" by simp
    moreover have "(0::rat) < power_int 2 e" by (simp add: zero_less_power_int)
    ultimately show False by simp
  qed
  have "rhe (x / power_int 2 (e - 52)) = m" using assms(4) by (rule rhe_nearest)
  then show ?thesis using x0 by (simp add: fl64_def q)
qed

subsection \<open>Rounding with overflow\<close>



lemma rnd64_finite:
  assumes "\<bar>fl64 x\<bar> < 2 ^ 1024"
  shows "rnd64 x = Fin (fl64 x)"
  using assms by (simp add: rnd64_def Let_def abs_less_iff not_le)




section \<open>The target calculator, unfolded\<close>

lemma length_rolling_max: "length (rolling_max w xs) = length xs"
  by (simp add: rolling_max_def)

lemma length_rolling_min: "length (rolling_min w xs) = length xs"
  by (simp add: rolling_min_def)

lemma last_rolling_max:
  "xs \<noteq> [] \<Longrightarrow> last (rolling_max w xs) =
     (if length xs < w then NaN else Fin (Max (set (window w xs (length xs - 1)))))"
  by (auto simp: rolling_max_def last_map)

lemma last_rolling_min:
  "xs \<noteq> [] \<Longrightarrow> last (rolling_min w xs) =
     (if length xs < w then NaN else Fin (Min (set (window w xs (length xs - 1)))))"
  by (auto simp: rolling_min_def last_map)

lemma last_map2:
  assumes "xs \<noteq> []" and "length xs = length ys"
  shows "last (map2 f xs ys) = f (last xs) (last ys)"
proof -
  from assms have "ys \<noteq> []" by auto
  with assms show ?thesis
    by (simp add: last_conv_nth)
qed

lemma iloc_last_atr:
  assumes "df \<noteq> []"
  shows "iloc_last (map2 fsub (rolling_max 14 (map high df)) (rolling_min 14 (map low df)))
         = Inr (atr_last df)"
proof -
  have ne: "rolling_max 14 (map high df) \<noteq> []"
    using assms length_rolling_max [of 14 "map high df"] by auto
  have len: "length (rolling_max 14 (map high df)) = length (rolling_min 14 (map low df))"
    by (simp add: length_rolling_max length_rolling_min)
  have "last (map2 fsub (rolling_max 14 (map high df)) (rolling_min 14 (map low df)))
        = fsub (last (rolling_max 14 (map high df))) (last (rolling_min 14 (map low df)))"
    by (rule last_map2 [OF ne len])
  also have "\<dots> = atr_last df"
    using assms by (simp add: last_rolling_max last_rolling_min atr_last_def fsub_def)
  finally have "last (map2 fsub (rolling_max 14 (map high df)) (rolling_min 14 (map low df)))
        = atr_last df" .
  moreover have "map2 fsub (rolling_max 14 (map high df)) (rolling_min 14 (map low df)) \<noteq> []"
    using ne len by (cases "rolling_max 14 (map high df)"; cases "rolling_min 14 (map low df)") auto
  ultimately show ?thesis by (simp add: iloc_last_def)
qed

lemma iloc_last_close:
  "df \<noteq> [] \<Longrightarrow> iloc_last (map close df) = Inr (close (last df))"
  by (simp add: iloc_last_def last_map)


lemma calculate_trade_targets_Long:
  assumes "df \<noteq> []"
  shows "calculate_trade_targets df cp Long rr =
     Inr \<lparr> stop_loss = fsub (Fin cp) (stop_distance_of df cp),
           take_profit = fadd (Fin cp) (fmul (stop_distance_of df cp) (Fin rr)),
           risk_distance = fabs (fsub (Fin cp) (fsub (Fin cp) (stop_distance_of df cp))),
           reward_distance =
             fabs (fsub (fadd (Fin cp) (fmul (stop_distance_of df cp) (Fin rr))) (Fin cp)) \<rparr>"
  using assms
  by (simp add: calculate_trade_targets_def iloc_last_atr iloc_last_close
      stop_distance_of_def Let_def)

lemma calculate_trade_targets_Short:
  assumes "df \<noteq> []"
  shows "calculate_trade_targets df cp Short rr =
     Inr \<lparr> stop_loss = fadd (Fin cp) (stop_distance_of df cp),
           take_profit = fsub (Fin cp) (fmul (stop_distance_of df cp) (Fin rr)),
           risk_distance = fabs (fsub (Fin cp) (fadd (Fin cp) (stop_distance_of df cp))),
           reward_distance =
             fabs (fsub (fsub (Fin cp) (fmul (stop_distance_of df cp) (Fin rr))) (Fin cp)) \<rparr>"
  using assms
  by (simp add: calculate_trade_targets_def iloc_last_atr iloc_last_close
      stop_distance_of_def Let_def)


lemma calculate_trade_targets_returns:
  "df \<noteq> [] \<Longrightarrow> \<exists>t. calculate_trade_targets df cp tr rr = Inr t"
  by (cases tr) (simp_all add: calculate_trade_targets_Long calculate_trade_targets_Short)

lemma window_last:
  assumes "w \<le> length xs" and "0 < w"
  shows "window w xs (length xs - 1) = drop (length xs - w) xs"
proof -
  from assms have "Suc (length xs - 1) = length xs" by simp
  then show ?thesis using assms by (simp add: window_def)
qed

lemma atr_last_full:
  assumes "14 \<le> length df"
  shows "atr_last df = fsub (Fin (Max (set (map high (drop (length df - 14) df)))))
                           (Fin (Min (set (map low (drop (length df - 14) df)))))"
proof -
  have h: "window 14 (map high df) (length df - 1) = map high (drop (length df - 14) df)"
    using window_last [of 14 "map high df"] assms by (simp add: drop_map)
  have l: "window 14 (map low df) (length df - 1) = map low (drop (length df - 14) df)"
    using window_last [of 14 "map low df"] assms by (simp add: drop_map)
  show ?thesis unfolding atr_last_def h l using assms by simp
qed

subsection \<open>Values that are not finite stay so\<close>

lemma not_finite_inf_of_sign: "\<not> is_finite (inf_of_sign a)"
  by (simp add: inf_of_sign_def)

lemma not_finite_fmul_left: "\<not> is_finite x \<Longrightarrow> \<not> is_finite (fmul (Fin a) x)"
  by (cases x) (simp_all add: not_finite_inf_of_sign)

lemma not_finite_fmul_right: "\<not> is_finite x \<Longrightarrow> \<not> is_finite (fmul x (Fin a))"
  by (cases x) (simp_all add: not_finite_inf_of_sign)

lemma not_finite_fadd_left: "\<not> is_finite x \<Longrightarrow> \<not> is_finite (fadd (Fin a) x)"
  by (cases x) simp_all

lemma not_finite_fneg: "\<not> is_finite x \<Longrightarrow> \<not> is_finite (fneg x)"
  by (cases x) simp_all

lemma not_finite_fsub_left: "\<not> is_finite x \<Longrightarrow> \<not> is_finite (fsub (Fin a) x)"
  by (simp add: fsub_def not_finite_fadd_left not_finite_fneg)

lemma not_finite_fsub_right: "\<not> is_finite x \<Longrightarrow> \<not> is_finite (fsub x (Fin a))"
  by (cases x) (simp_all add: fsub_def)

lemma not_finite_fabs: "\<not> is_finite x \<Longrightarrow> \<not> is_finite (fabs x)"
  by (cases x) simp_all

lemma not_finite_fdiv_zero: "\<not> is_finite (fdiv x (Fin 0))"
  by (cases x) (simp_all add: not_finite_inf_of_sign)

lemma stop_distance_zero_close:
  "close (last df) = 0 \<Longrightarrow> \<not> is_finite (stop_distance_of df cp)"
  by (simp add: stop_distance_of_def not_finite_fmul_right not_finite_fmul_left
      not_finite_fdiv_zero)

subsection \<open>Signs and order under rounding\<close>






subsection \<open>The rounding error of the two distances\<close>



subsection \<open>Finite results have finite operands\<close>




lemma fmul_Fin_left_E:
  assumes "fmul x (Fin a) = Fin c"
  obtains b where "x = Fin b"
  using assms by (cases x) (auto simp: inf_of_sign_def split: if_splits)


subsection \<open>The roundings of the examples\<close>

lemma rnd64_small: "\<bar>fl64 x\<bar> \<le> 2 ^ 64 \<Longrightarrow> rnd64 x = Fin (fl64 x)"
proof (rule rnd64_finite)
  assume "\<bar>fl64 x\<bar> \<le> 2 ^ 64"
  moreover have "(2::rat) ^ 64 < 2 ^ 1024" by simp
  ultimately show "\<bar>fl64 x\<bar> < 2 ^ 1024" by (rule le_less_trans)
qed

lemma fl64_value_1: "fl64 (6646139978924579 / 664613997892457936451903530140172288) = 6646139978924579 / 664613997892457936451903530140172288"
  using fl64_value [of "-67" "6646139978924579 / 664613997892457936451903530140172288" "6646139978924579"] by simp

lemma fl64_value_2: "fl64 (1 / 100000000000000000000) = 6646139978924579 / 664613997892457936451903530140172288"
  using fl64_value [of "-67" "1 / 100000000000000000000" "6646139978924579"] by simp

lemma fl64_value_3: "fl64 (166153499473114475 / 166153499473114484112975882535043072) = 5192296858534827 / 5192296858534827628530496329220096"
  using fl64_value [of "-60" "166153499473114475 / 166153499473114484112975882535043072" "5192296858534827"] by simp

lemma fl64_value_4: "fl64 (15576890575604481 / 10384593717069655257060992658440192) = 60847228810955 / 40564819207303340847894502572032"
  using fl64_value [of "-60" "15576890575604481 / 10384593717069655257060992658440192" "7788445287802240"] by simp

lemma fl64_value_5: "fl64 (60847228810955 / 20282409603651670423947251286016) = 60847228810955 / 20282409603651670423947251286016"
  using fl64_value [of "-59" "60847228810955 / 20282409603651670423947251286016" "7788445287802240"] by simp

lemma fl64_value_6: "fl64 (1 / 75) = 7686143364045647 / 576460752303423488"
  using fl64_value [of "-7" "1 / 75" "7686143364045647"] by simp

lemma fl64_value_7: "fl64 (2 / 75) = 7686143364045647 / 288230376151711744"
  using fl64_value [of "-6" "2 / 75" "7686143364045647"] by simp

lemma fl64_value_8: "fl64 (1 / 10) = 3602879701896397 / 36028797018963968"
  using fl64_value [of "-4" "1 / 10" "7205759403792794"] by simp

lemma fl64_value_9: "fl64 (1 / 7) = 2573485501354569 / 18014398509481984"
  using fl64_value [of "-3" "1 / 7" "5146971002709138"] by simp

lemma fl64_value_10: "fl64 (3 / 20) = 5404319552844595 / 36028797018963968"
  using fl64_value [of "-3" "3 / 20" "5404319552844595"] by simp

lemma fl64_value_11: "fl64 (3602879701896397 / 18014398509481984) = 3602879701896397 / 18014398509481984"
  using fl64_value [of "-3" "3602879701896397 / 18014398509481984" "7205759403792794"] by simp

lemma fl64_value_12: "fl64 (1 / 4) = 1 / 4"
  using fl64_value [of "-2" "1 / 4" "4503599627370496"] by simp

lemma fl64_value_13: "fl64 (14411518807585587 / 36028797018963968) = 3602879701896397 / 9007199254740992"
  using fl64_value [of "-2" "14411518807585587 / 36028797018963968" "7205759403792794"] by simp

lemma fl64_value_14: "fl64 (2 / 5) = 3602879701896397 / 9007199254740992"
  using fl64_value [of "-2" "2 / 5" "7205759403792794"] by simp

lemma fl64_value_15: "fl64 (8106479329266893 / 18014398509481984) = 8106479329266893 / 18014398509481984"
  using fl64_value [of "-2" "8106479329266893 / 18014398509481984" "8106479329266893"] by simp

lemma fl64_value_16: "fl64 (1 / 2) = 1 / 2"
  using fl64_value [of "-1" "1 / 2" "4503599627370496"] by simp

lemma fl64_value_17: "fl64 (18014398509481985 / 36028797018963968) = 1 / 2"
  using fl64_value [of "-1" "18014398509481985 / 36028797018963968" "4503599627370496"] by simp

lemma fl64_value_18: "fl64 (7 / 10) = 3152519739159347 / 4503599627370496"
  using fl64_value [of "-1" "7 / 10" "6305039478318694"] by simp

lemma fl64_value_19: "fl64 (12610078956637389 / 18014398509481984) = 3152519739159347 / 4503599627370496"
  using fl64_value [of "-1" "12610078956637389 / 18014398509481984" "6305039478318694"] by simp

lemma fl64_value_20: "fl64 (4 / 5) = 3602879701896397 / 4503599627370496"
  using fl64_value [of "-1" "4 / 5" "7205759403792794"] by simp

lemma fl64_value_21: "fl64 (17 / 20) = 7656119366529843 / 9007199254740992"
  using fl64_value [of "-1" "17 / 20" "7656119366529843"] by simp

lemma fl64_value_22: "fl64 (15312238733059687 / 18014398509481984) = 1914029841632461 / 2251799813685248"
  using fl64_value [of "-1" "15312238733059687 / 18014398509481984" "7656119366529844"] by simp

lemma fl64_value_23: "fl64 (9 / 10) = 8106479329266893 / 9007199254740992"
  using fl64_value [of "-1" "9 / 10" "8106479329266893"] by simp

lemma fl64_value_24: "fl64 (1) = 1"
  using fl64_value [of "0" "1" "4503599627370496"] by simp

lemma fl64_value_25: "fl64 (192153584101141175 / 144115188075855872) = 3002399751580331 / 2251799813685248"
  using fl64_value [of "0" "192153584101141175 / 144115188075855872" "6004799503160662"] by simp

lemma fl64_value_26: "fl64 (2) = 2"
  using fl64_value [of "1" "2" "4503599627370496"] by simp

lemma fl64_value_27: "fl64 (9007199254740993 / 4503599627370496) = 2"
  using fl64_value [of "1" "9007199254740993 / 4503599627370496" "4503599627370496"] by simp

lemma fl64_value_28: "fl64 (192153584101141175 / 72057594037927936) = 3002399751580331 / 1125899906842624"
  using fl64_value [of "1" "192153584101141175 / 72057594037927936" "6004799503160662"] by simp

lemma fl64_value_29: "fl64 (3) = 3"
  using fl64_value [of "1" "3" "6755399441055744"] by simp

lemma fl64_value_30: "fl64 (4) = 4"
  using fl64_value [of "2" "4" "4503599627370496"] by simp

lemma fl64_value_31: "fl64 (9007199254740993 / 2251799813685248) = 4"
  using fl64_value [of "2" "9007199254740993 / 2251799813685248" "4503599627370496"] by simp

lemma fl64_value_32: "fl64 (8) = 8"
  using fl64_value [of "3" "8" "4503599627370496"] by simp

lemma fl64_value_33: "fl64 (64337137533864225 / 4503599627370496) = 2010535547933257 / 140737488355328"
  using fl64_value [of "3" "64337137533864225 / 4503599627370496" "8042142191733028"] by simp

lemma fl64_value_34: "fl64 (6031606643799771 / 281474976710656) = 6031606643799771 / 281474976710656"
  using fl64_value [of "4" "6031606643799771 / 281474976710656" "6031606643799771"] by simp

lemma fl64_value_35: "fl64 (1507901660949943 / 70368744177664) = 1507901660949943 / 70368744177664"
  using fl64_value [of "4" "1507901660949943 / 70368744177664" "6031606643799772"] by simp

lemma fl64_value_36: "fl64 (628292358729143 / 17592186044416) = 628292358729143 / 17592186044416"
  using fl64_value [of "5" "628292358729143 / 17592186044416" "5026338869833144"] by simp

lemma fl64_value_37: "fl64 (1130926245712457 / 17592186044416) = 1130926245712457 / 17592186044416"
  using fl64_value [of "6" "1130926245712457 / 17592186044416" "4523704982849828"] by simp

lemma fl64_value_38: "fl64 (18094819931399313 / 281474976710656) = 1130926245712457 / 17592186044416"
  using fl64_value [of "6" "18094819931399313 / 281474976710656" "4523704982849828"] by simp

lemma fl64_value_39: "fl64 (4523704982849829 / 70368744177664) = 4523704982849829 / 70368744177664"
  using fl64_value [of "6" "4523704982849829 / 70368744177664" "4523704982849829"] by simp

lemma fl64_value_40: "fl64 (22115891027265829 / 281474976710656) = 5528972756816457 / 70368744177664"
  using fl64_value [of "6" "22115891027265829 / 281474976710656" "5528972756816457"] by simp

lemma fl64_value_41: "fl64 (96) = 96"
  using fl64_value [of "6" "96" "6755399441055744"] by simp

lemma fl64_value_42: "fl64 (98) = 98"
  using fl64_value [of "6" "98" "6896136929411072"] by simp

lemma fl64_value_43: "fl64 (4056481920730334084728603028392245 / 40564819207303340847894502572032) = 100"
  using fl64_value [of "6" "4056481920730334084728603028392245 / 40564819207303340847894502572032" "7036874417766400"] by simp

lemma fl64_value_44: "fl64 (100) = 100"
  using fl64_value [of "6" "100" "7036874417766400"] by simp

lemma fl64_value_45: "fl64 (2028240960365167042455572357412555 / 20282409603651670423947251286016) = 100"
  using fl64_value [of "6" "2028240960365167042455572357412555 / 20282409603651670423947251286016" "7036874417766400"] by simp

lemma fl64_value_46: "fl64 (102) = 102"
  using fl64_value [of "6" "102" "7177611906121728"] by simp

lemma fl64_value_47: "fl64 (104) = 104"
  using fl64_value [of "6" "104" "7318349394477056"] by simp

lemma fl64_value_48: "fl64 (108) = 108"
  using fl64_value [of "6" "108" "7599824371187712"] by simp

lemma fl64_value_49: "fl64 (34179104314865371 / 281474976710656) = 8544776078716343 / 70368744177664"
  using fl64_value [of "6" "34179104314865371 / 281474976710656" "8544776078716343"] by simp

lemma fl64_value_50: "fl64 (2890144850154057 / 17592186044416) = 2890144850154057 / 17592186044416"
  using fl64_value [of "7" "2890144850154057 / 17592186044416" "5780289700308114"] by simp

lemmas fl64_values =
  fl64_value_1 fl64_value_2 fl64_value_3 fl64_value_4 fl64_value_5 fl64_value_6
  fl64_value_7 fl64_value_8 fl64_value_9 fl64_value_10 fl64_value_11 fl64_value_12
  fl64_value_13 fl64_value_14 fl64_value_15 fl64_value_16 fl64_value_17 fl64_value_18
  fl64_value_19 fl64_value_20 fl64_value_21 fl64_value_22 fl64_value_23 fl64_value_24
  fl64_value_25 fl64_value_26 fl64_value_27 fl64_value_28 fl64_value_29 fl64_value_30
  fl64_value_31 fl64_value_32 fl64_value_33 fl64_value_34 fl64_value_35 fl64_value_36
  fl64_value_37 fl64_value_38 fl64_value_39 fl64_value_40 fl64_value_41 fl64_value_42
  fl64_value_43 fl64_value_44 fl64_value_45 fl64_value_46 fl64_value_47 fl64_value_48
  fl64_value_49 fl64_value_50

lemmas float_eval = rnd64_small fl64_values fl64_zero fl64_minus fsub_def

section \<open>Claims about the target calculator\<close>

text \<open>
  Claim C4, as stated: "if the latest close price is zero, the target calculator fails
  with an explicit domain error rather than returning a result that contains an
  infinity or NaN". The code has no such check. On fourteen bars with high 2, low 1
  and close 0, at current price 100, long, ratio 2, it returns targets, and all four
  of them are infinite.
\<close>

theorem zero_close_counterexample:
  "calculate_trade_targets (replicate 14 \<lparr>high = 2, low = 1, close = 0\<rparr>) 100 Long 2
     = Inr \<lparr> stop_loss = NInf, take_profit = PInf,
             risk_distance = PInf, reward_distance = PInf \<rparr>"
  by (simp add: calculate_trade_targets_Long stop_distance_of_def atr_last_full
      inf_of_sign_def float_eval)

text \<open>
  Claim C4, amended: if the latest close price of a non-empty frame is zero, the target
  calculator raises no error; it returns targets whose stop loss, take profit, risk
  distance and reward distance are all infinite or NaN.
\<close>

theorem zero_close_returns_non_finite_targets:
  assumes "df \<noteq> []" and "close (last df) = 0"
  shows "\<exists>t. calculate_trade_targets df cp tr rr = Inr t
           \<and> \<not> is_finite (stop_loss t) \<and> \<not> is_finite (take_profit t)
           \<and> \<not> is_finite (risk_distance t) \<and> \<not> is_finite (reward_distance t)"
proof -
  have sd: "\<not> is_finite (stop_distance_of df cp)"
    using assms(2) by (rule stop_distance_zero_close)
  have m: "\<not> is_finite (fmul (stop_distance_of df cp) (Fin rr))"
    using sd by (rule not_finite_fmul_right)
  show ?thesis
  proof (cases tr)
    case Long
    then show ?thesis using assms(1) sd m
      by (simp add: calculate_trade_targets_Long not_finite_fsub_left not_finite_fadd_left
          not_finite_fabs not_finite_fsub_right)
  next
    case Short
    then show ?thesis using assms(1) sd m
      by (simp add: calculate_trade_targets_Short not_finite_fsub_left not_finite_fadd_left
          not_finite_fabs not_finite_fsub_right)
  qed
qed

theorem zero_close_returns_non_finite_targets_witness:
  "replicate 14 \<lparr>high = 3, low = 2, close = 0\<rparr> \<noteq> []
   \<and> close (last (replicate 14 \<lparr>high = 3, low = 2, close = 0\<rparr>)) = 0
   \<and> calculate_trade_targets (replicate 14 \<lparr>high = 3, low = 2, close = 0\<rparr>) 5 Short 2
       = Inr \<lparr> stop_loss = PInf, take_profit = NInf,
               risk_distance = PInf, reward_distance = PInf \<rparr>
   \<and> (\<exists>t. calculate_trade_targets (replicate 14 \<lparr>high = 3, low = 2, close = 0\<rparr>) 5 Short 2
            = Inr t
          \<and> \<not> is_finite (stop_loss t) \<and> \<not> is_finite (take_profit t)
          \<and> \<not> is_finite (risk_distance t) \<and> \<not> is_finite (reward_distance t))"
proof -
  let ?df = "replicate 14 \<lparr>high = 3, low = 2, close = (0::rat)\<rparr>"
  have h1: "?df \<noteq> []" by simp
  have h2: "close (last ?df) = 0" by simp
  have v: "calculate_trade_targets ?df 5 Short 2
       = Inr \<lparr> stop_loss = PInf, take_profit = NInf,
               risk_distance = PInf, reward_distance = PInf \<rparr>"
    by (simp add: calculate_trade_targets_Short stop_distance_of_def atr_last_full
        inf_of_sign_def float_eval)
  from h1 h2 v zero_close_returns_non_finite_targets [OF h1 h2, of 5 Short 2]
  show ?thesis by simp
qed







section \<open>The fusion, unfolded\<close>

lemma signal_scores_fold:
  "signal_scores ts ai =
     (foldl fadd64 0 (bull_contributions ts ai), foldl fadd64 0 (bear_contributions ts ai))"
  by (simp add: signal_scores_def bull_contributions_def bear_contributions_def Let_def)

lemma half_values: "fl64 (1 / 2) = 1 / 2" "fmul64 (1 / 2) (1 / 2) = 1 / 4"
  by (simp_all add: fmul64_def fl64_values)

lemma get_entry_timing_caveats:
  "get_entry_timing ts ai =
     (if get_flag ts ''high_volume'' \<and> confidence_or 0 ai > fl64 0.8 then ''immediate''
      else if triggered_caveats ts \<noteq> [] then ''delayed: '' @ join '', '' (triggered_caveats ts)
      else ''immediate'')"
  by (simp add: get_entry_timing_def triggered_caveats_def confidence_or_def Let_def)

lemma triggered_caveats_empty:
  "triggered_caveats ts = [] \<longleftrightarrow>
     \<not> get_flag ts ''rsi_oversold'' \<and> \<not> get_flag ts ''rsi_overbought''
     \<and> get_flag ts ''high_volume''"
  by (simp add: triggered_caveats_def)

lemma generate_final_signal_neutral:
  assumes "signal_scores ts ai = (bull, bear)"
    and "\<not> (bull > bear \<and> bull > min_confidence_threshold self)"
    and "\<not> (bear > bull \<and> bear > min_confidence_threshold self)"
  shows "generate_final_signal self now cp ts ai ta = Inr (neutral_signal now (max bull bear))"
  unfolding generate_final_signal_def neutral_signal_def
  by (simp add: assms split del: if_split)

lemma generate_final_signal_buy:
  assumes "signal_scores ts ai = (bull, bear)"
    and "bull > bear" and "bull > min_confidence_threshold self"
  shows "generate_final_signal self now cp ts ai ta =
     (case calculate_trade_targets ta cp Long (risk_reward_ratio self) of
        Inl e \<Rightarrow> Inl e
      | Inr tgts \<Rightarrow> Inr (directional_signal self now cp ts ai ''buy'' bull tgts))"
  unfolding generate_final_signal_def directional_signal_def
  by (simp add: assms split del: if_split split: sum.split)

lemma generate_final_signal_sell:
  assumes "signal_scores ts ai = (bull, bear)"
    and "\<not> (bull > bear \<and> bull > min_confidence_threshold self)"
    and "bear > bull" and "bear > min_confidence_threshold self"
  shows "generate_final_signal self now cp ts ai ta =
     (case calculate_trade_targets ta cp Short (risk_reward_ratio self) of
        Inl e \<Rightarrow> Inl e
      | Inr tgts \<Rightarrow> Inr (directional_signal self now cp ts ai ''sell'' bear tgts))"
  unfolding generate_final_signal_def directional_signal_def
  by (simp add: assms split del: if_split split: sum.split)

lemma neutral_signal_fields:
  "signal (neutral_signal now conf) = ''neutral''"
  "confidence (neutral_signal now conf) = conf"
  "targets (neutral_signal now conf) = None"
  "timestamp (neutral_signal now conf) = now"
  by (simp_all add: neutral_signal_def)

lemma directional_signal_fields:
  "signal (directional_signal self now cp ts ai st conf tgts) = st"
  "confidence (directional_signal self now cp ts ai st conf tgts) = conf"
  "targets (directional_signal self now cp ts ai st conf tgts) =
     Some \<lparr> target_stop_loss = stop_loss tgts, target_take_profit = take_profit tgts \<rparr>"
  "timestamp (directional_signal self now cp ts ai st conf tgts) = now"
  "entry (directional_signal self now cp ts ai st conf tgts) =
     Some \<lparr> price = cp, entry_type = ''market'', timing = get_entry_timing ts ai \<rparr>"
  by (simp_all add: directional_signal_def)

lemma neutral_signal_timestamp:
  "neutral_signal now conf \<lparr> timestamp := now' \<rparr> = neutral_signal now' conf"
  by (simp add: neutral_signal_def)

lemma directional_signal_timestamp:
  "directional_signal self now cp ts ai st conf tgts \<lparr> timestamp := now' \<rparr>
     = directional_signal self now' cp ts ai st conf tgts"
  by (simp add: directional_signal_def)

lemmas score_eval = signal_scores_def get_flag_def Let_def fadd64_def fmul64_def
  fl64_values fl64_zero

lemma scenario_scores:
  "signal_scores [''uptrend'' \<mapsto> True, ''golden_cross'' \<mapsto> True]
     \<lparr> sentiment = Some ''bullish'', confidence_score = Some (fl64 0.9),
       key_levels = kl, recommendations = recs \<rparr>
   = (1914029841632461 / 2251799813685248, 0)"
  by (simp add: score_eval)

lemma threshold_scores:
  "signal_scores [''uptrend'' \<mapsto> True, ''golden_cross'' \<mapsto> True, ''rsi_oversold'' \<mapsto> True]
     \<lparr> sentiment = Some ''bullish'', confidence_score = Some (fl64 0.4),
       key_levels = kl, recommendations = recs \<rparr>
   = (fl64 0.7, 0)"
  by (simp add: score_eval)

lemma init_threshold:
  "min_confidence_threshold init_signal_generator = 3152519739159347 / 4503599627370496"
  "risk_reward_ratio init_signal_generator = 2"
  by (simp_all add: init_signal_generator_def fl64_values)

lemma example_targets_Long:
  "calculate_trade_targets (replicate 14 \<lparr>high = 2, low = 1, close = 75\<rparr>) 100 Long 2
     = Inr \<lparr> stop_loss = Fin 98, take_profit = Fin 104,
             risk_distance = Fin 2, reward_distance = Fin 4 \<rparr>"
  by (simp add: calculate_trade_targets_Long stop_distance_of_def atr_last_full float_eval)

section \<open>The sentiment interpreter, unfolded\<close>

lemma sum_list_ones: "sum_list (map (\<lambda>x. 1::nat) xs) = length xs"
  by (induction xs) simp_all

lemma keyword_count_card:
  assumes "distinct keywords"
  shows "keyword_count keywords content = card {w \<in> set keywords. sublist w content}"
proof -
  have "keyword_count keywords content = length (filter (\<lambda>w. sublist w content) keywords)"
    by (simp only: keyword_count_def sum_list_ones)
  also have "\<dots> = card (set (filter (\<lambda>w. sublist w content) keywords))"
    using assms distinct_card [of "filter (\<lambda>w. sublist w content) keywords"]
    by (simp only: distinct_filter)
  also have "set (filter (\<lambda>w. sublist w content) keywords)
             = {w \<in> set keywords. sublist w content}"
    by simp
  finally show ?thesis .
qed

lemma distinct_bullish_keywords: "distinct bullish_keywords"
  by (simp add: bullish_keywords_def)

lemma distinct_bearish_keywords: "distinct bearish_keywords"
  by (simp add: bearish_keywords_def)

lemma keyword_count_none:
  assumes "\<forall>w \<in> set keywords. \<not> sublist w content"
  shows "keyword_count keywords content = 0"
proof -
  have "filter (\<lambda>w. sublist w content) keywords = []"
    using assms by (simp add: filter_empty_conv)
  then show ?thesis by (simp add: keyword_count_def)
qed

section \<open>Claims about the fusion\<close>

text \<open>
  Claim C1, as stated: "with the conditions uptrend and golden cross, a bullish verdict
  of confidence 0.9 and the threshold 0.7, the result is a buy with confidence 0.85".
  The signal is a buy, but the float sum \<open>0.25 + 0.15 + 0.5 * 0.9\<close> is
  \<open>0.8500000000000001\<close>, which is neither the float \<open>0.85\<close> nor the rational
  \<open>0.85\<close>.
\<close>

theorem scenario_confidence_counterexample:
  "map_sum id (\<lambda>s. (signal s, confidence s))
     (generate_final_signal init_signal_generator ''2025-01-01T00:00:00'' 100
        [''uptrend'' \<mapsto> True, ''golden_cross'' \<mapsto> True]
        \<lparr> sentiment = Some ''bullish'', confidence_score = Some (fl64 0.9),
          key_levels = Some [], recommendations = Some [] \<rparr>
        (replicate 14 \<lparr>high = 2, low = 1, close = 75\<rparr>))
     = Inr (''buy'', 1914029841632461 / 2251799813685248)
   \<and> (1914029841632461 / 2251799813685248 :: rat) \<noteq> fl64 0.85
   \<and> (1914029841632461 / 2251799813685248 :: rat) \<noteq> 0.85"
proof -
  have g: "generate_final_signal init_signal_generator ''2025-01-01T00:00:00'' 100
        [''uptrend'' \<mapsto> True, ''golden_cross'' \<mapsto> True]
        \<lparr> sentiment = Some ''bullish'', confidence_score = Some (fl64 0.9),
          key_levels = Some [], recommendations = Some [] \<rparr>
        (replicate 14 \<lparr>high = 2, low = 1, close = 75\<rparr>)
      = Inr (directional_signal init_signal_generator ''2025-01-01T00:00:00'' 100
          [''uptrend'' \<mapsto> True, ''golden_cross'' \<mapsto> True]
          \<lparr> sentiment = Some ''bullish'', confidence_score = Some (fl64 0.9),
            key_levels = Some [], recommendations = Some [] \<rparr>
          ''buy'' (1914029841632461 / 2251799813685248)
          \<lparr> stop_loss = Fin 98, take_profit = Fin 104,
            risk_distance = Fin 2, reward_distance = Fin 4 \<rparr>)"
    using generate_final_signal_buy
      [OF scenario_scores [of "Some []" "Some []"], where self = init_signal_generator
         and now = "''2025-01-01T00:00:00''" and cp = 100
         and ta = "replicate 14 \<lparr>high = 2, low = 1, close = 75\<rparr>"]
      example_targets_Long
    by (simp add: init_threshold)
  show ?thesis
    unfolding g by (simp add: directional_signal_fields fl64_values)
qed

text \<open>
  Claim C1, amended: the two accumulators start at 0 and receive exactly these
  contributions, each at most once and each added in float64 arithmetic in this order:
  uptrend 0.25, golden cross 0.15 and oversold RSI 0.10 to the bull score; downtrend
  0.25, death cross 0.15 and overbought RSI 0.10 to the bear score; a bullish verdict
  adds \<open>0.5 * confidence\<close> to the bull score, a bearish one to the bear score, any
  other verdict nothing. With the conditions uptrend and golden cross, a bullish verdict
  of confidence 0.9 and the threshold 0.7, the result is a buy, whenever the frame has
  a bar, and its confidence is \<open>0.8500000000000001\<close>, one unit in the last place
  above the float \<open>0.85\<close>.
\<close>

theorem score_contributions_and_scenario:
  "signal_scores ts ai =
     (foldl fadd64 0 (bull_contributions ts ai), foldl fadd64 0 (bear_contributions ts ai))
   \<and> (ta \<noteq> [] \<longrightarrow>
        (\<exists>s. generate_final_signal
                \<lparr> risk_reward_ratio = rr, min_confidence_threshold = fl64 0.7 \<rparr>
                now cp [''uptrend'' \<mapsto> True, ''golden_cross'' \<mapsto> True]
                \<lparr> sentiment = Some ''bullish'', confidence_score = Some (fl64 0.9),
                  key_levels = kl, recommendations = recs \<rparr> ta = Inr s
             \<and> signal s = ''buy''
             \<and> confidence s = 1914029841632461 / 2251799813685248))
   \<and> (1914029841632461 / 2251799813685248 :: rat) = fl64 0.85 + 1 / 2 ^ 53"
proof (intro conjI)
  show "signal_scores ts ai =
     (foldl fadd64 0 (bull_contributions ts ai), foldl fadd64 0 (bear_contributions ts ai))"
    by (rule signal_scores_fold)
next
  let ?self = "\<lparr> risk_reward_ratio = rr, min_confidence_threshold = fl64 0.7 \<rparr>"
  let ?ts = "[''uptrend'' \<mapsto> True, ''golden_cross'' \<mapsto> True]"
  let ?ai = "\<lparr> sentiment = Some ''bullish'', confidence_score = Some (fl64 0.9),
                key_levels = kl, recommendations = recs \<rparr>"
  have g: "generate_final_signal ?self now cp ?ts ?ai ta =
     (case calculate_trade_targets ta cp Long (risk_reward_ratio ?self) of
        Inl e \<Rightarrow> Inl e
      | Inr tgts \<Rightarrow> Inr (directional_signal ?self now cp ?ts ?ai ''buy''
                          (1914029841632461 / 2251799813685248) tgts))"
    by (rule generate_final_signal_buy [OF scenario_scores]) (simp_all add: fl64_values)
  show "ta \<noteq> [] \<longrightarrow>
        (\<exists>s. generate_final_signal ?self now cp ?ts ?ai ta = Inr s
             \<and> signal s = ''buy''
             \<and> confidence s = 1914029841632461 / 2251799813685248)"
  proof
    assume "ta \<noteq> []"
    then obtain t where "calculate_trade_targets ta cp Long (risk_reward_ratio ?self) = Inr t"
      using calculate_trade_targets_returns by blast
    then show "\<exists>s. generate_final_signal ?self now cp ?ts ?ai ta = Inr s
             \<and> signal s = ''buy''
             \<and> confidence s = 1914029841632461 / 2251799813685248"
      unfolding g by (simp add: directional_signal_fields)
  qed
next
  show "(1914029841632461 / 2251799813685248 :: rat) = fl64 0.85 + 1 / 2 ^ 53"
    by (simp add: fl64_values)
qed

theorem score_contributions_and_scenario_witness:
  "replicate 14 \<lparr>high = 2, low = 1, close = 75\<rparr> \<noteq> []
   \<and> (\<exists>s. generate_final_signal
             \<lparr> risk_reward_ratio = 2, min_confidence_threshold = fl64 0.7 \<rparr>
             ''2025-01-01T00:00:00'' 100 [''uptrend'' \<mapsto> True, ''golden_cross'' \<mapsto> True]
             \<lparr> sentiment = Some ''bullish'', confidence_score = Some (fl64 0.9),
               key_levels = Some [], recommendations = Some [] \<rparr>
             (replicate 14 \<lparr>high = 2, low = 1, close = 75\<rparr>) = Inr s
          \<and> signal s = ''buy''
          \<and> confidence s = 1914029841632461 / 2251799813685248)"
proof -
  have h: "replicate 14 \<lparr>high = 2, low = 1, close = (75::rat)\<rparr> \<noteq> []" by simp
  from score_contributions_and_scenario
    [of Map.empty "\<lparr> sentiment = None, confidence_score = None, key_levels = None,
          recommendations = None \<rparr>"
        "replicate 14 \<lparr>high = 2, low = 1, close = 75\<rparr>" 2 "''2025-01-01T00:00:00''" 100
        "Some []" "Some []"] h
  show ?thesis by blast
qed

text \<open>
  Claim C2: the result is a buy iff the bull score exceeds both the bear score and the
  threshold, a sell iff the bear score exceeds both the bull score and the threshold,
  and neutral otherwise; the comparisons are strict, so equal scores, or a leading
  score that does not exceed the threshold, give neutral; a neutral result carries the
  larger of the two scores as its confidence. The fusion returns whenever the frame
  has a bar, and in the neutral case for every frame.
\<close>

theorem decision_rule:
  assumes sc: "signal_scores ts ai = (bull, bear)"
    and th: "th = min_confidence_threshold self"
  shows "(ta \<noteq> [] \<longrightarrow> (\<exists>s. generate_final_signal self now cp ts ai ta = Inr s))
       \<and> (\<forall>s. generate_final_signal self now cp ts ai ta = Inr s \<longrightarrow>
             (signal s = ''buy'' \<longleftrightarrow> bull > bear \<and> bull > th)
           \<and> (signal s = ''sell'' \<longleftrightarrow> bear > bull \<and> bear > th)
           \<and> (signal s = ''neutral'' \<longleftrightarrow>
                 \<not> (bull > bear \<and> bull > th) \<and> \<not> (bear > bull \<and> bear > th))
           \<and> (signal s = ''neutral'' \<longrightarrow> confidence s = max bull bear))
       \<and> (bull = bear \<or> max bull bear \<le> th \<longrightarrow>
             (\<exists>s. generate_final_signal self now cp ts ai ta = Inr s
                  \<and> signal s = ''neutral'' \<and> confidence s = max bull bear))"
proof -
  consider (buy) "bull > bear" "bull > th"
    | (sell) "\<not> (bull > bear \<and> bull > th)" "bear > bull" "bear > th"
    | (neutral) "\<not> (bull > bear \<and> bull > th)" "\<not> (bear > bull \<and> bear > th)"
    by blast
  then show ?thesis
  proof cases
    case buy
    have g: "generate_final_signal self now cp ts ai ta =
       (case calculate_trade_targets ta cp Long (risk_reward_ratio self) of
          Inl e \<Rightarrow> Inl e
        | Inr tgts \<Rightarrow> Inr (directional_signal self now cp ts ai ''buy'' bull tgts))"
      using buy unfolding th by (rule generate_final_signal_buy [OF sc])
    have r: "ta \<noteq> [] \<Longrightarrow>
        \<exists>t. calculate_trade_targets ta cp Long (risk_reward_ratio self) = Inr t"
      by (rule calculate_trade_targets_returns)
    from buy r show ?thesis
      unfolding g
      by (cases "calculate_trade_targets ta cp Long (risk_reward_ratio self)")
         (auto simp: directional_signal_fields)
  next
    case sell
    have g: "generate_final_signal self now cp ts ai ta =
       (case calculate_trade_targets ta cp Short (risk_reward_ratio self) of
          Inl e \<Rightarrow> Inl e
        | Inr tgts \<Rightarrow> Inr (directional_signal self now cp ts ai ''sell'' bear tgts))"
      using sell unfolding th by (rule generate_final_signal_sell [OF sc])
    have r: "ta \<noteq> [] \<Longrightarrow>
        \<exists>t. calculate_trade_targets ta cp Short (risk_reward_ratio self) = Inr t"
      by (rule calculate_trade_targets_returns)
    from sell r show ?thesis
      unfolding g
      by (cases "calculate_trade_targets ta cp Short (risk_reward_ratio self)")
         (auto simp: directional_signal_fields)
  next
    case neutral
    have g: "generate_final_signal self now cp ts ai ta
               = Inr (neutral_signal now (max bull bear))"
      using neutral unfolding th by (rule generate_final_signal_neutral [OF sc])
    from neutral show ?thesis
      unfolding g by (auto simp: neutral_signal_fields)
  qed
qed

theorem decision_rule_witness:
  "signal_scores [''uptrend'' \<mapsto> True, ''golden_cross'' \<mapsto> True]
     \<lparr> sentiment = Some ''bullish'', confidence_score = Some (fl64 0.9),
       key_levels = Some [], recommendations = Some [] \<rparr>
     = (1914029841632461 / 2251799813685248, 0)
   \<and> (\<exists>s. generate_final_signal init_signal_generator ''2025-01-01T00:00:00'' 100
             [''uptrend'' \<mapsto> True, ''golden_cross'' \<mapsto> True]
             \<lparr> sentiment = Some ''bullish'', confidence_score = Some (fl64 0.9),
               key_levels = Some [], recommendations = Some [] \<rparr>
             (replicate 14 \<lparr>high = 2, low = 1, close = 75\<rparr>) = Inr s
          \<and> signal s = ''buy'')
   \<and> signal_scores [''uptrend'' \<mapsto> True, ''golden_cross'' \<mapsto> True, ''rsi_oversold'' \<mapsto> True]
     \<lparr> sentiment = Some ''bullish'', confidence_score = Some (fl64 0.4),
       key_levels = Some [], recommendations = Some [] \<rparr> = (fl64 0.7, 0)
   \<and> (\<exists>s. generate_final_signal init_signal_generator ''2025-01-01T00:00:00'' 100
             [''uptrend'' \<mapsto> True, ''golden_cross'' \<mapsto> True, ''rsi_oversold'' \<mapsto> True]
             \<lparr> sentiment = Some ''bullish'', confidence_score = Some (fl64 0.4),
               key_levels = Some [], recommendations = Some [] \<rparr>
             (replicate 14 \<lparr>high = 2, low = 1, close = 75\<rparr>) = Inr s
          \<and> signal s = ''neutral'' \<and> confidence s = fl64 0.7)"
proof -
  let ?ai = "\<lparr> sentiment = Some ''bullish'', confidence_score = Some (fl64 0.9),
               key_levels = Some [], recommendations = Some [] \<rparr>"
  let ?ai' = "\<lparr> sentiment = Some ''bullish'', confidence_score = Some (fl64 0.4),
               key_levels = Some [], recommendations = Some [] \<rparr>"
  let ?df = "replicate 14 \<lparr>high = 2, low = 1, close = (75::rat)\<rparr>"
  have sc: "signal_scores [''uptrend'' \<mapsto> True, ''golden_cross'' \<mapsto> True] ?ai
              = (1914029841632461 / 2251799813685248, 0)"
    by (rule scenario_scores)
  have sc': "signal_scores [''uptrend'' \<mapsto> True, ''golden_cross'' \<mapsto> True,
                ''rsi_oversold'' \<mapsto> True] ?ai' = (fl64 0.7, 0)"
    by (rule threshold_scores)
  have th: "fl64 0.7 = min_confidence_threshold init_signal_generator"
    by (simp add: init_signal_generator_def)
  have ne: "?df \<noteq> []" by simp
  have v: "(0::rat) < fl64 0.7" "fl64 0.7 < (1914029841632461 / 2251799813685248 :: rat)"
    by (simp_all add: fl64_values)
  have a: "\<exists>s. generate_final_signal init_signal_generator ''2025-01-01T00:00:00'' 100
             [''uptrend'' \<mapsto> True, ''golden_cross'' \<mapsto> True] ?ai ?df = Inr s
          \<and> signal s = ''buy''"
    using decision_rule [OF sc th, of ?df "''2025-01-01T00:00:00''" 100] ne v by auto
  have b: "\<exists>s. generate_final_signal init_signal_generator ''2025-01-01T00:00:00'' 100
             [''uptrend'' \<mapsto> True, ''golden_cross'' \<mapsto> True, ''rsi_oversold'' \<mapsto> True] ?ai' ?df
             = Inr s \<and> signal s = ''neutral'' \<and> confidence s = fl64 0.7"
    using decision_rule [OF sc' th, of ?df "''2025-01-01T00:00:00''" 100] v by auto
  from sc sc' a b show ?thesis by blast
qed

text \<open>
  Claim C3: a returned signal is buy, sell or neutral; a buy or sell carries a targets
  record, holding the stop loss and the take profit that the target calculator
  returned for that direction; a neutral signal carries no targets record.
\<close>

theorem targets_present_iff_directional:
  assumes ret: "generate_final_signal self now cp ts ai ta = Inr s"
  shows "(signal s = ''buy'' \<or> signal s = ''sell'' \<or> signal s = ''neutral'')
       \<and> (signal s = ''buy'' \<longrightarrow>
            (\<exists>t. calculate_trade_targets ta cp Long (risk_reward_ratio self) = Inr t
               \<and> targets s = Some \<lparr> target_stop_loss = stop_loss t,
                                      target_take_profit = take_profit t \<rparr>))
       \<and> (signal s = ''sell'' \<longrightarrow>
            (\<exists>t. calculate_trade_targets ta cp Short (risk_reward_ratio self) = Inr t
               \<and> targets s = Some \<lparr> target_stop_loss = stop_loss t,
                                      target_take_profit = take_profit t \<rparr>))
       \<and> (signal s = ''neutral'' \<longrightarrow> targets s = None)"
proof -
  obtain bull bear where sc: "signal_scores ts ai = (bull, bear)"
    by (cases "signal_scores ts ai")
  consider (b) "bull > bear" "bull > min_confidence_threshold self"
    | (s) "\<not> (bull > bear \<and> bull > min_confidence_threshold self)"
        "bear > bull" "bear > min_confidence_threshold self"
    | (n) "\<not> (bull > bear \<and> bull > min_confidence_threshold self)"
        "\<not> (bear > bull \<and> bear > min_confidence_threshold self)"
    by blast
  then show ?thesis
  proof cases
    case b
    show ?thesis
      using ret unfolding generate_final_signal_buy [OF sc b]
      by (cases "calculate_trade_targets ta cp Long (risk_reward_ratio self)")
         (auto simp: directional_signal_fields)
  next
    case s
    show ?thesis
      using ret unfolding generate_final_signal_sell [OF sc s]
      by (cases "calculate_trade_targets ta cp Short (risk_reward_ratio self)")
         (auto simp: directional_signal_fields)
  next
    case n
    show ?thesis
      using ret unfolding generate_final_signal_neutral [OF sc n]
      by (auto simp: neutral_signal_fields)
  qed
qed

theorem targets_present_iff_directional_witness:
  "\<exists>s. generate_final_signal init_signal_generator ''2025-01-01T00:00:00'' 100
          [''uptrend'' \<mapsto> True, ''golden_cross'' \<mapsto> True]
          \<lparr> sentiment = Some ''bullish'', confidence_score = Some (fl64 0.9),
            key_levels = Some [], recommendations = Some [] \<rparr>
          (replicate 14 \<lparr>high = 2, low = 1, close = 75\<rparr>) = Inr s
       \<and> signal s = ''buy''
       \<and> targets s = Some \<lparr> target_stop_loss = Fin 98, target_take_profit = Fin 104 \<rparr>"
proof -
  let ?ts = "[''uptrend'' \<mapsto> True, ''golden_cross'' \<mapsto> True]"
  let ?ai = "\<lparr> sentiment = Some ''bullish'', confidence_score = Some (fl64 0.9),
               key_levels = Some [], recommendations = Some [] \<rparr>"
  let ?df = "replicate 14 \<lparr>high = 2, low = 1, close = (75::rat)\<rparr>"
  let ?s = "directional_signal init_signal_generator ''2025-01-01T00:00:00'' 100 ?ts ?ai
              ''buy'' (1914029841632461 / 2251799813685248)
              \<lparr> stop_loss = Fin 98, take_profit = Fin 104,
                risk_distance = Fin 2, reward_distance = Fin 4 \<rparr>"
  have g: "generate_final_signal init_signal_generator ''2025-01-01T00:00:00'' 100 ?ts ?ai ?df
             = Inr ?s"
    using generate_final_signal_buy
      [OF scenario_scores [of "Some []" "Some []"], where self = init_signal_generator
         and now = "''2025-01-01T00:00:00''" and cp = 100 and ta = ?df]
      example_targets_Long
    by (simp add: init_threshold)
  have b: "signal ?s = ''buy''" by (simp add: directional_signal_fields)
  from targets_present_iff_directional [OF g] b example_targets_Long
  have "targets ?s = Some \<lparr> target_stop_loss = Fin 98, target_take_profit = Fin 104 \<rparr>"
    by (auto simp: init_threshold)
  with g b show ?thesis by blast
qed

text \<open>
  Claim C7: the entry timing is "immediate" iff the volume is high and the verdict's
  confidence exceeds the float 0.8, or no caveat applies (neither RSI flag is set and the volume
  is high); otherwise it is "delayed: " followed by exactly the triggered caveats,
  joined by ", ", in the order oversold, overbought, volume.
\<close>

theorem entry_timing:
  "(get_entry_timing ts ai = ''immediate'' \<longleftrightarrow>
      (get_flag ts ''high_volume'' \<and> confidence_or 0 ai > fl64 0.8)
      \<or> (\<not> get_flag ts ''rsi_oversold'' \<and> \<not> get_flag ts ''rsi_overbought''
          \<and> get_flag ts ''high_volume''))
   \<and> (\<not> ((get_flag ts ''high_volume'' \<and> confidence_or 0 ai > fl64 0.8)
           \<or> (\<not> get_flag ts ''rsi_oversold'' \<and> \<not> get_flag ts ''rsi_overbought''
               \<and> get_flag ts ''high_volume''))
        \<longrightarrow> get_entry_timing ts ai = ''delayed: '' @ join '', '' (triggered_caveats ts))"
  by (auto simp: get_entry_timing_caveats triggered_caveats_empty)

theorem entry_timing_witness:
  "get_entry_timing [''rsi_oversold'' \<mapsto> True, ''rsi_overbought'' \<mapsto> True]
     \<lparr> sentiment = Some ''bullish'', confidence_score = Some (fl64 0.9),
       key_levels = Some [], recommendations = Some [] \<rparr>
   = ''delayed: wait for RSI recovery, wait for RSI pullback, wait for volume confirmation''"
proof -
  let ?ts = "[''rsi_oversold'' \<mapsto> True, ''rsi_overbought'' \<mapsto> True]"
  let ?ai = "\<lparr> sentiment = Some ''bullish'', confidence_score = Some (fl64 0.9),
               key_levels = Some [], recommendations = Some [] \<rparr>"
  have h: "\<not> ((get_flag ?ts ''high_volume'' \<and> confidence_or 0 ?ai > fl64 0.8)
           \<or> (\<not> get_flag ?ts ''rsi_oversold'' \<and> \<not> get_flag ?ts ''rsi_overbought''
               \<and> get_flag ?ts ''high_volume''))"
    by (simp add: get_flag_def)
  from entry_timing [of ?ts ?ai] h
  have "get_entry_timing ?ts ?ai = ''delayed: '' @ join '', '' (triggered_caveats ?ts)"
    by blast
  then show ?thesis by (simp add: triggered_caveats_def get_flag_def)
qed

text \<open>
  Claim C8, as stated: "two invocations with identical current price, technical
  conditions, sentiment verdict, risk/reward ratio and threshold produce records that
  are identical in every field". The function reads the clock for the timestamp
  field, so two calls five minutes apart differ; and it reads the price series of the
  analysis object, which the claim does not list, so two calls with different series
  differ in their targets.
\<close>

theorem purity_counterexample:
  "generate_final_signal init_signal_generator ''2025-01-01T00:00:00'' 100 Map.empty
     \<lparr> sentiment = Some ''neutral'', confidence_score = Some 0.5,
       key_levels = Some [], recommendations = Some [] \<rparr>
     (replicate 14 \<lparr>high = 2, low = 1, close = 75\<rparr>)
   \<noteq> generate_final_signal init_signal_generator ''2025-01-01T00:05:00'' 100 Map.empty
     \<lparr> sentiment = Some ''neutral'', confidence_score = Some 0.5,
       key_levels = Some [], recommendations = Some [] \<rparr>
     (replicate 14 \<lparr>high = 2, low = 1, close = 75\<rparr>)
   \<and> generate_final_signal init_signal_generator ''2025-01-01T00:00:00'' 100
     [''uptrend'' \<mapsto> True, ''golden_cross'' \<mapsto> True]
     \<lparr> sentiment = Some ''bullish'', confidence_score = Some (fl64 0.9),
       key_levels = Some [], recommendations = Some [] \<rparr>
     (replicate 14 \<lparr>high = 2, low = 1, close = 75\<rparr>)
   \<noteq> generate_final_signal init_signal_generator ''2025-01-01T00:00:00'' 100
     [''uptrend'' \<mapsto> True, ''golden_cross'' \<mapsto> True]
     \<lparr> sentiment = Some ''bullish'', confidence_score = Some (fl64 0.9),
       key_levels = Some [], recommendations = Some [] \<rparr>
     (replicate 14 \<lparr>high = 3, low = 1, close = 75\<rparr>)"
proof -
  let ?ai = "\<lparr> sentiment = Some ''neutral'', confidence_score = Some 0.5,
               key_levels = Some [], recommendations = Some [] \<rparr>"
  let ?df = "replicate 14 \<lparr>high = 2, low = 1, close = (75::rat)\<rparr>"
  let ?df' = "replicate 14 \<lparr>high = 3, low = 1, close = (75::rat)\<rparr>"
  have sc: "signal_scores Map.empty ?ai = (0, 0)"
    by (simp add: signal_scores_def get_flag_def Let_def)
  have n: "generate_final_signal init_signal_generator now 100 Map.empty ?ai ?df
             = Inr (neutral_signal now (max 0 0))" for now
    by (rule generate_final_signal_neutral [OF sc]) (simp_all add: init_threshold)
  have t': "calculate_trade_targets ?df' 100 Long 2
     = Inr \<lparr> stop_loss = Fin 96, take_profit = Fin 108,
             risk_distance = Fin 4, reward_distance = Fin 8 \<rparr>"
    by (simp add: calculate_trade_targets_Long stop_distance_of_def atr_last_full float_eval)
  have b: "generate_final_signal init_signal_generator now 100
             [''uptrend'' \<mapsto> True, ''golden_cross'' \<mapsto> True]
             \<lparr> sentiment = Some ''bullish'', confidence_score = Some (fl64 0.9),
               key_levels = Some [], recommendations = Some [] \<rparr> ta
           = (case calculate_trade_targets ta 100 Long 2 of
                Inl e \<Rightarrow> Inl e
              | Inr tgts \<Rightarrow> Inr (directional_signal init_signal_generator now 100
                   [''uptrend'' \<mapsto> True, ''golden_cross'' \<mapsto> True]
                   \<lparr> sentiment = Some ''bullish'', confidence_score = Some (fl64 0.9),
                     key_levels = Some [], recommendations = Some [] \<rparr> ''buy''
                   (1914029841632461 / 2251799813685248) tgts))"
    for now ta
    using generate_final_signal_buy
      [OF scenario_scores [of "Some []" "Some []"], where self = init_signal_generator
         and now = now and cp = 100 and ta = ta]
    by (simp add: init_threshold)
  show ?thesis
    unfolding n b example_targets_Long t'
    by (simp add: neutral_signal_def directional_signal_def)
qed

text \<open>
  Claim C8, amended: for identical current price, technical conditions, sentiment
  verdict, price series, risk/reward ratio and threshold, two invocations agree in
  every field except the timestamp, which is the clock reading of each call: the
  result at one clock reading is the result at another with the timestamp replaced
  (and the same error, if the calculator raised).
\<close>

theorem clock_only_sets_timestamp:
  "generate_final_signal self now' cp ts ai ta =
     map_sum id (\<lambda>s. s \<lparr> timestamp := now' \<rparr>) (generate_final_signal self now cp ts ai ta)"
proof -
  obtain bull bear where sc: "signal_scores ts ai = (bull, bear)"
    by (cases "signal_scores ts ai")
  consider (b) "bull > bear" "bull > min_confidence_threshold self"
    | (s) "\<not> (bull > bear \<and> bull > min_confidence_threshold self)"
        "bear > bull" "bear > min_confidence_threshold self"
    | (n) "\<not> (bull > bear \<and> bull > min_confidence_threshold self)"
        "\<not> (bear > bull \<and> bear > min_confidence_threshold self)"
    by blast
  then show ?thesis
  proof cases
    case b
    show ?thesis
      unfolding generate_final_signal_buy [OF sc b]
      by (cases "calculate_trade_targets ta cp Long (risk_reward_ratio self)")
         (simp_all add: directional_signal_timestamp)
  next
    case s
    show ?thesis
      unfolding generate_final_signal_sell [OF sc s]
      by (cases "calculate_trade_targets ta cp Short (risk_reward_ratio self)")
         (simp_all add: directional_signal_timestamp)
  next
    case n
    show ?thesis
      unfolding generate_final_signal_neutral [OF sc n]
      by (simp add: neutral_signal_timestamp)
  qed
qed

theorem clock_only_sets_timestamp_witness:
  "generate_final_signal init_signal_generator ''2025-01-01T00:05:00'' 100 Map.empty
     \<lparr> sentiment = Some ''neutral'', confidence_score = Some 0.5,
       key_levels = Some [], recommendations = Some [] \<rparr>
     (replicate 14 \<lparr>high = 2, low = 1, close = 75\<rparr>)
   = map_sum id (\<lambda>s. s \<lparr> timestamp := ''2025-01-01T00:05:00'' \<rparr>)
      (generate_final_signal init_signal_generator ''2025-01-01T00:00:00'' 100 Map.empty
         \<lparr> sentiment = Some ''neutral'', confidence_score = Some 0.5,
           key_levels = Some [], recommendations = Some [] \<rparr>
         (replicate 14 \<lparr>high = 2, low = 1, close = 75\<rparr>))"
  by (rule clock_only_sets_timestamp)

section \<open>Claims about the sentiment interpreter\<close>

text \<open>
  Claim C9, as stated: "the polarity is decided by counting occurrences of the bullish
  keywords against occurrences of the bearish keywords". The code adds one for each
  keyword that is present, however often it occurs. In the text below the bullish
  keywords occur three times and the bearish keywords twice, and the result is
  bearish: one bullish keyword is present, two bearish ones are.
\<close>

theorem occurrence_count_counterexample:
  "keyword_occurrences bullish_keywords (lower ''bullish, bullish, bullish; lower, decline'') = 3
   \<and> keyword_occurrences bearish_keywords (lower ''bullish, bullish, bullish; lower, decline'') = 2
   \<and> extract_sentiment ''bullish, bullish, bullish; lower, decline'' = ''bearish''"
  by code_simp

text \<open>
  Claim C9, amended: the polarity is decided by the number of bullish keywords and the
  number of bearish keywords that are present in the lower-cased text, each keyword
  counted once however often it occurs: bullish when more bullish keywords are
  present, bearish when more bearish ones are, neutral on a tie, in particular for a
  text that contains no keyword.
\<close>

theorem sentiment_by_keywords_present:
  "extract_sentiment content =
     (let b = card {w \<in> set bullish_keywords. sublist w (lower content)};
          r = card {w \<in> set bearish_keywords. sublist w (lower content)}
      in if b > r then ''bullish'' else if r > b then ''bearish'' else ''neutral'')
   \<and> ((\<forall>w \<in> set bullish_keywords \<union> set bearish_keywords. \<not> sublist w (lower content))
        \<longrightarrow> extract_sentiment content = ''neutral'')"
proof
  show "extract_sentiment content =
     (let b = card {w \<in> set bullish_keywords. sublist w (lower content)};
          r = card {w \<in> set bearish_keywords. sublist w (lower content)}
      in if b > r then ''bullish'' else if r > b then ''bearish'' else ''neutral'')"
    by (simp add: extract_sentiment_def Let_def
        keyword_count_card [OF distinct_bullish_keywords]
        keyword_count_card [OF distinct_bearish_keywords])
next
  show "(\<forall>w \<in> set bullish_keywords \<union> set bearish_keywords. \<not> sublist w (lower content))
        \<longrightarrow> extract_sentiment content = ''neutral''"
  proof
    assume a: "\<forall>w \<in> set bullish_keywords \<union> set bearish_keywords. \<not> sublist w (lower content)"
    have "keyword_count bullish_keywords (lower content) = 0"
      using a by (intro keyword_count_none) blast
    moreover have "keyword_count bearish_keywords (lower content) = 0"
      using a by (intro keyword_count_none) blast
    ultimately show "extract_sentiment content = ''neutral''"
      by (simp add: extract_sentiment_def Let_def)
  qed
qed

theorem sentiment_by_keywords_present_witness:
  "list_all (\<lambda>w. \<not> sublist w (lower ''No clear view.'')) (bullish_keywords @ bearish_keywords)
   \<and> extract_sentiment ''No clear view.'' = ''neutral''"
proof -
  have l: "list_all (\<lambda>w. \<not> sublist w (lower ''No clear view.''))
             (bullish_keywords @ bearish_keywords)"
    by code_simp
  then have h: "\<forall>w \<in> set bullish_keywords \<union> set bearish_keywords.
                  \<not> sublist w (lower ''No clear view.'')"
    by (simp add: list_all_iff)
  from sentiment_by_keywords_present [of "''No clear view.''"] h l show ?thesis by blast
qed

section \<open>The two defaults for a missing confidence\<close>

text \<open>
  Claim C10: when the verdict has no confidence score, the scoring uses 0.5, so that a
  bullish or bearish verdict adds 0.25 to its side (a float addition, as every
  contribution is), and the entry timing uses 0, so that the result is decided by the
  caveats alone and never by the branch for high volume and high confidence.
\<close>

theorem missing_confidence_defaults:
  "signal_scores ts (ai \<lparr> confidence_score := None \<rparr>)
     = signal_scores ts (ai \<lparr> confidence_score := Some 0.5 \<rparr>)
   \<and> (sentiment ai = Some ''bullish'' \<longrightarrow>
        signal_scores ts (ai \<lparr> confidence_score := None \<rparr>)
          = (fadd64 (fst (signal_scores ts (ai \<lparr> sentiment := None \<rparr>))) 0.25,
             snd (signal_scores ts (ai \<lparr> sentiment := None \<rparr>))))
   \<and> (sentiment ai = Some ''bearish'' \<longrightarrow>
        signal_scores ts (ai \<lparr> confidence_score := None \<rparr>)
          = (fst (signal_scores ts (ai \<lparr> sentiment := None \<rparr>)),
             fadd64 (snd (signal_scores ts (ai \<lparr> sentiment := None \<rparr>))) 0.25))
   \<and> get_entry_timing ts (ai \<lparr> confidence_score := None \<rparr>)
       = get_entry_timing ts (ai \<lparr> confidence_score := Some 0 \<rparr>)
   \<and> get_entry_timing ts (ai \<lparr> confidence_score := None \<rparr>)
       = (if triggered_caveats ts = [] then ''immediate''
          else ''delayed: '' @ join '', '' (triggered_caveats ts))"
proof -
  have v: "(0::rat) < fl64 0.8" by (simp add: fl64_values)
  show ?thesis
    using v
    by (simp add: signal_scores_fold bull_contributions_def bear_contributions_def
        half_values confidence_or_def get_entry_timing_caveats)
qed

theorem missing_confidence_defaults_witness:
  "signal_scores [''uptrend'' \<mapsto> True]
     \<lparr> sentiment = Some ''bullish'', confidence_score = None,
       key_levels = Some [], recommendations = Some [] \<rparr> = (0.5, 0)
   \<and> signal_scores [''uptrend'' \<mapsto> True]
     \<lparr> sentiment = Some ''bearish'', confidence_score = None,
       key_levels = Some [], recommendations = Some [] \<rparr> = (0.25, 0.25)
   \<and> get_entry_timing [''high_volume'' \<mapsto> True, ''rsi_overbought'' \<mapsto> True]
     \<lparr> sentiment = Some ''bullish'', confidence_score = None,
       key_levels = Some [], recommendations = Some [] \<rparr> = ''delayed: wait for RSI pullback''"
proof -
  let ?bull = "\<lparr> sentiment = Some ''bullish'', confidence_score = Some (fl64 0.9),
               key_levels = Some [], recommendations = Some [] \<rparr>"
  let ?bear = "\<lparr> sentiment = Some ''bearish'', confidence_score = Some (fl64 0.9),
               key_levels = Some [], recommendations = Some [] \<rparr>"
  have base: "signal_scores [''uptrend'' \<mapsto> True]
     \<lparr> sentiment = None, confidence_score = c, key_levels = Some [],
       recommendations = Some [] \<rparr> = (0.25, 0)" for c
    by (simp add: score_eval)
  have q: "fadd64 (1/4) (1/4) = 1/2" "fadd64 0 (1/4) = 1/4"
    by (simp_all add: fadd64_def fl64_values)
  have h1: "sentiment ?bull = Some ''bullish''" by simp
  have h2: "sentiment ?bear = Some ''bearish''" by simp
  from missing_confidence_defaults [of "[''uptrend'' \<mapsto> True]" ?bull] h1
  have "signal_scores [''uptrend'' \<mapsto> True] (?bull \<lparr> confidence_score := None \<rparr>)
          = (fadd64 (fst (signal_scores [''uptrend'' \<mapsto> True] (?bull \<lparr> sentiment := None \<rparr>))) 0.25,
             snd (signal_scores [''uptrend'' \<mapsto> True] (?bull \<lparr> sentiment := None \<rparr>)))"
    by blast
  then have a: "signal_scores [''uptrend'' \<mapsto> True]
                  (?bull \<lparr> confidence_score := None \<rparr>) = (0.5, 0)"
    by (simp add: base q)
  from missing_confidence_defaults [of "[''uptrend'' \<mapsto> True]" ?bear] h2
  have "signal_scores [''uptrend'' \<mapsto> True] (?bear \<lparr> confidence_score := None \<rparr>)
          = (fst (signal_scores [''uptrend'' \<mapsto> True] (?bear \<lparr> sentiment := None \<rparr>)),
             fadd64 (snd (signal_scores [''uptrend'' \<mapsto> True] (?bear \<lparr> sentiment := None \<rparr>))) 0.25)"
    by blast
  then have b: "signal_scores [''uptrend'' \<mapsto> True]
                  (?bear \<lparr> confidence_score := None \<rparr>) = (0.25, 0.25)"
    by (simp add: base q)
  from missing_confidence_defaults
      [of "[''high_volume'' \<mapsto> True, ''rsi_overbought'' \<mapsto> True]" ?bull]
  have "get_entry_timing [''high_volume'' \<mapsto> True, ''rsi_overbought'' \<mapsto> True]
          (?bull \<lparr> confidence_score := None \<rparr>)
        = (if triggered_caveats [''high_volume'' \<mapsto> True, ''rsi_overbought'' \<mapsto> True] = []
           then ''immediate''
           else ''delayed: '' @ join '', ''
                  (triggered_caveats [''high_volume'' \<mapsto> True, ''rsi_overbought'' \<mapsto> True]))"
    by blast
  then have c: "get_entry_timing [''high_volume'' \<mapsto> True, ''rsi_overbought'' \<mapsto> True]
             (?bull \<lparr> confidence_score := None \<rparr>) = ''delayed: wait for RSI pullback''"
    by (simp add: triggered_caveats_def get_flag_def)
  from a b c show ?thesis by simp
qed

end
